theory Spec2Isabelle
  imports Complex_Main "HOL-Library.Word"
begin

section \<open>JavaScript numbers\<close>

text \<open>
  A JavaScript number is an IEEE 754 binary64 value: a real of the form \<open>m * 2 ^ k\<close> with
  \<open>\<bar>m\<bar> < 2 ^ 53\<close> and \<open>- 1074 \<le> k\<close> below \<open>2 ^ 1024\<close>, an infinity or \<open>NaN\<close>. Every
  addition, subtraction, multiplication and division rounds its exact result to the nearest
  such value, ties to the even mantissa; results too large become an infinity, results too
  small become subnormal or zero. The sign of zero is not modelled: a zero divisor is
  taken as \<open>+0\<close> (the only divisor of the program that can be zero is a sum of two squares,
  which is never \<open>-0\<close>). The operations on \<open>jsnum\<close> below round; the motion of the
  objects and particles, the cursor and the lives of the trail are advanced in exact real
  arithmetic, the score and the lives of the player in integers.
\<close>

datatype jsnum = Fin real | PInf | NInf | NaN

text \<open>Rounding to the nearest integer, a tie going to the even one.\<close>

definition roundEven :: "real \<Rightarrow> int" where
  "roundEven r =
     (let f = \<lfloor>r\<rfloor>; d = r - of_int f
      in if d < 1 / 2 then f
         else if 1 / 2 < d then f + 1
         else if even f then f else f + 1)"

text \<open>
  The binary exponent of a magnitude: the largest \<open>e\<close> between \<open>- 1021\<close> and \<open>1023\<close> with
  \<open>2 ^ e \<le> a\<close>, searched downwards, and \<open>- 1022\<close> (the exponent of the least normal binade
  and of the subnormal numbers) when there is none.
\<close>

fun exponentFrom :: "nat \<Rightarrow> int \<Rightarrow> real \<Rightarrow> int" where
  "exponentFrom 0 e a = e"
| "exponentFrom (Suc n) e a = (if 2 powi e \<le> a then e else exponentFrom n (e - 1) a)"

definition exponent :: "real \<Rightarrow> int" where
  "exponent a = exponentFrom 2045 1023 a"

text \<open>
  The binary64 value of an exact result: the multiple of the unit in the last place,
  \<open>2 ^ (e - 52)\<close>, that is nearest to it, or an infinity from \<open>2 ^ 1024\<close> on.
\<close>

definition binary64 :: "real \<Rightarrow> jsnum" where
  "binary64 x =
     (let e = exponent \<bar>x\<bar>;
          u = 2 powi (e - 52);
          y = of_int (roundEven (x / u)) * u
      in if 2 powi 1024 \<le> \<bar>y\<bar> then (if 0 < x then PInf else NInf) else Fin y)"

fun js_neg :: "jsnum \<Rightarrow> jsnum" where
  "js_neg (Fin a) = Fin (- a)"
| "js_neg PInf = NInf"
| "js_neg NInf = PInf"
| "js_neg NaN = NaN"

fun js_add :: "jsnum \<Rightarrow> jsnum \<Rightarrow> jsnum" where
  "js_add NaN _ = NaN"
| "js_add _ NaN = NaN"
| "js_add (Fin a) (Fin b) = binary64 (a + b)"
| "js_add PInf NInf = NaN"
| "js_add NInf PInf = NaN"
| "js_add PInf _ = PInf"
| "js_add NInf _ = NInf"
| "js_add (Fin a) PInf = PInf"
| "js_add (Fin a) NInf = NInf"

fun js_sub :: "jsnum \<Rightarrow> jsnum \<Rightarrow> jsnum" where
  "js_sub (Fin a) (Fin b) = binary64 (a - b)"
| "js_sub a b = js_add a (js_neg b)"

text \<open>The sign of a non-zero product or quotient with an infinite operand.\<close>

definition js_signed_inf :: "bool \<Rightarrow> jsnum" where
  "js_signed_inf positive = (if positive then PInf else NInf)"

fun js_mul :: "jsnum \<Rightarrow> jsnum \<Rightarrow> jsnum" where
  "js_mul NaN _ = NaN"
| "js_mul _ NaN = NaN"
| "js_mul (Fin a) (Fin b) = binary64 (a * b)"
| "js_mul (Fin a) PInf = (if a = 0 then NaN else js_signed_inf (0 < a))"
| "js_mul (Fin a) NInf = (if a = 0 then NaN else js_signed_inf (a < 0))"
| "js_mul PInf (Fin b) = (if b = 0 then NaN else js_signed_inf (0 < b))"
| "js_mul NInf (Fin b) = (if b = 0 then NaN else js_signed_inf (b < 0))"
| "js_mul PInf PInf = PInf"
| "js_mul NInf NInf = PInf"
| "js_mul PInf NInf = NInf"
| "js_mul NInf PInf = NInf"

fun js_div :: "jsnum \<Rightarrow> jsnum \<Rightarrow> jsnum" where
  "js_div NaN _ = NaN"
| "js_div _ NaN = NaN"
| "js_div (Fin a) (Fin b) =
     (if b \<noteq> 0 then binary64 (a / b)
      else if a = 0 then NaN
      else js_signed_inf (0 < a))"
| "js_div (Fin a) _ = Fin 0"
| "js_div PInf (Fin b) = js_signed_inf (0 \<le> b)"
| "js_div NInf (Fin b) = js_signed_inf (b < 0)"
| "js_div _ _ = NaN"

text \<open>The comparison \<open>a < b\<close>: false as soon as one side is \<open>NaN\<close>.\<close>

fun js_lt :: "jsnum \<Rightarrow> jsnum \<Rightarrow> bool" where
  "js_lt NaN _ = False"
| "js_lt _ NaN = False"
| "js_lt (Fin a) (Fin b) = (a < b)"
| "js_lt _ NInf = False"
| "js_lt PInf _ = False"
| "js_lt NInf _ = True"
| "js_lt (Fin a) PInf = True"

text \<open>\<open>Math.min\<close> and \<open>Math.max\<close> of two arguments: \<open>NaN\<close> if either is \<open>NaN\<close>.\<close>

fun js_min :: "jsnum \<Rightarrow> jsnum \<Rightarrow> jsnum" where
  "js_min NaN _ = NaN"
| "js_min _ NaN = NaN"
| "js_min a b = (if js_lt b a then b else a)"

fun js_max :: "jsnum \<Rightarrow> jsnum \<Rightarrow> jsnum" where
  "js_max NaN _ = NaN"
| "js_max _ NaN = NaN"
| "js_max a b = (if js_lt a b then b else a)"

text \<open>
  The exponentiation \<open>a ** 2\<close>, taken as the correctly rounded square, the value of
  \<open>a * a\<close> (the language leaves the precision of \<open>**\<close> to the implementation).
\<close>

definition js_sq :: "jsnum \<Rightarrow> jsnum" where
  "js_sq a = js_mul a a"

text \<open>\<open>Math.abs\<close>.\<close>

fun js_abs :: "jsnum \<Rightarrow> jsnum" where
  "js_abs (Fin a) = Fin \<bar>a\<bar>"
| "js_abs PInf = PInf"
| "js_abs NInf = PInf"
| "js_abs NaN = NaN"

section \<open>Data model\<close>

text \<open>
  The declarations of \<open>types.ts\<close>. The numeric fields hold the value of a JavaScript number
  as a real. The identifier of an object, a string derived from one random draw, is kept
  as that draw; its label is optional, since the spawner can read past the end of an
  empty vocabulary. Field names carry a prefix, since several of the records share \<open>x\<close>,
  \<open>y\<close> and \<open>life\<close>.
\<close>

datatype GameState = MENU | LOADING_LEVEL | PLAYING | GAME_OVER | ERROR

record TrailPoint =
  tp_x :: real
  tp_y :: real
  tp_life :: real

record GameObject =
  obj_id :: real
  obj_text :: "string option"
  obj_x :: real
  obj_y :: real
  obj_vx :: real
  obj_vy :: real
  obj_rotation :: real
  obj_vRotation :: real
  obj_isTarget :: bool
  obj_radius :: real
  obj_sliced :: bool
  obj_color :: string

record Particle =
  pt_x :: real
  pt_y :: real
  pt_vx :: real
  pt_vy :: real
  pt_life :: real
  pt_color :: string
  pt_size :: real

record LevelData =
  themeName :: string
  instruction :: string
  targets :: "string list"
  distractors :: "string list"

section \<open>Collision test\<close>

text \<open>The value of \<open>t\<close> before it is clamped: the quotient by the squared length.\<close>

definition projection :: "TrailPoint \<Rightarrow> TrailPoint \<Rightarrow> GameObject \<Rightarrow> jsnum" where
  "projection p1 p2 obj =
     (let dx = js_sub (Fin (tp_x p2)) (Fin (tp_x p1));
          dy = js_sub (Fin (tp_y p2)) (Fin (tp_y p1));
          lenSq = js_add (js_mul dx dx) (js_mul dy dy)
      in js_div (js_add (js_mul (js_sub (Fin (obj_x obj)) (Fin (tp_x p1))) dx)
                        (js_mul (js_sub (Fin (obj_y obj)) (Fin (tp_y p1))) dy)) lenSq)"

definition checkCollision :: "TrailPoint \<Rightarrow> TrailPoint \<Rightarrow> GameObject \<Rightarrow> bool" where
  "checkCollision p1 p2 obj =
     (let dx = js_sub (Fin (tp_x p2)) (Fin (tp_x p1));
          dy = js_sub (Fin (tp_y p2)) (Fin (tp_y p1));
          t = projection p1 p2 obj;
          t = js_max (Fin 0) (js_min (Fin 1) t);
          closestX = js_add (Fin (tp_x p1)) (js_mul t dx);
          closestY = js_add (Fin (tp_y p1)) (js_mul t dy);
          distSq = js_add (js_sq (js_sub (Fin (obj_x obj)) closestX))
                          (js_sq (js_sub (Fin (obj_y obj)) closestY))
      in js_lt distSq (js_mul (Fin (obj_radius obj)) (Fin (obj_radius obj))))"

text \<open>
  The closest point of the spec, in exact real arithmetic: the projection parameter of the
  centre onto the line through the two points, clamped to \<open>[0, 1]\<close>, and the squared
  distance from the centre to the point of the segment at that parameter.
\<close>

definition clampedParam :: "TrailPoint \<Rightarrow> TrailPoint \<Rightarrow> GameObject \<Rightarrow> real" where
  "clampedParam p1 p2 obj =
     max 0 (min 1 (((obj_x obj - tp_x p1) * (tp_x p2 - tp_x p1)
                    + (obj_y obj - tp_y p1) * (tp_y p2 - tp_y p1))
                   / ((tp_x p2 - tp_x p1) * (tp_x p2 - tp_x p1)
                      + (tp_y p2 - tp_y p1) * (tp_y p2 - tp_y p1))))"

definition distSqAt :: "TrailPoint \<Rightarrow> TrailPoint \<Rightarrow> GameObject \<Rightarrow> real \<Rightarrow> real" where
  "distSqAt p1 p2 obj s =
     (obj_x obj - (tp_x p1 + s * (tp_x p2 - tp_x p1)))\<^sup>2
     + (obj_y obj - (tp_y p1 + s * (tp_y p2 - tp_y p1)))\<^sup>2"

definition closestDistSq :: "TrailPoint \<Rightarrow> TrailPoint \<Rightarrow> GameObject \<Rightarrow> real" where
  "closestDistSq p1 p2 obj = distSqAt p1 p2 obj (clampedParam p1 p2 obj)"

definition sameEndpoints :: "TrailPoint \<Rightarrow> TrailPoint \<Rightarrow> bool" where
  "sameEndpoints p1 p2 \<longleftrightarrow> tp_x p1 = tp_x p2 \<and> tp_y p1 = tp_y p2"




section \<open>Constants\<close>

definition MOTION_THRESHOLD :: real where "MOTION_THRESHOLD = 35"
definition MIN_MOVEMENT_PIXELS :: nat where "MIN_MOVEMENT_PIXELS = 45"
definition DOWNSAMPLE_FACTOR :: real where "DOWNSAMPLE_FACTOR = 8"
definition MOTION_SENSITIVITY :: real where "MOTION_SENSITIVITY = 2.5"
definition GRAVITY :: real where "GRAVITY = 0.25"
definition SPAWN_RATE :: real where "SPAWN_RATE = 900"

section \<open>Vision engine\<close>

text \<open>
  A frame is the \<open>Uint8ClampedArray\<close> of an \<open>ImageData\<close>: four bytes (red, green, blue,
  alpha) per pixel, row by row. Reading an index past the end yields \<open>undefined\<close>, which
  arithmetic turns into \<open>NaN\<close>.
\<close>

type_synonym frame = "8 word list"

definition js_get :: "frame \<Rightarrow> nat \<Rightarrow> jsnum" where
  "js_get d i = (if i < length d then Fin (real (unat (d ! i))) else NaN)"

text \<open>
  The scan of \<open>detectMotion\<close>: \<open>for (let i = 0; i < frameData.length; i += 4)\<close>, with the
  three accumulators \<open>sumX\<close>, \<open>sumY\<close> and \<open>count\<close>. The accumulators hold non-negative
  integers. \<open>w\<close> is the width of the motion canvas, positive whenever a frame could be
  read from it.
\<close>

function scanPixels :: "frame \<Rightarrow> frame \<Rightarrow> nat \<Rightarrow> nat \<Rightarrow> nat \<times> nat \<times> nat \<Rightarrow> nat \<times> nat \<times> nat" where
  "scanPixels frameData prevData w i (sumX, sumY, count) =
     (if i < length frameData then
        (let rDiff = js_abs (js_sub (js_get frameData i) (js_get prevData i));
             gDiff = js_abs (js_sub (js_get frameData (i + 1)) (js_get prevData (i + 1)));
             bDiff = js_abs (js_sub (js_get frameData (i + 2)) (js_get prevData (i + 2)))
         in if js_lt (Fin (MOTION_THRESHOLD * 3)) (js_add (js_add rDiff gDiff) bDiff)
            then (let pixelIndex = i div 4
                  in scanPixels frameData prevData w (i + 4)
                       (sumX + pixelIndex mod w, sumY + pixelIndex div w, count + 1))
            else scanPixels frameData prevData w (i + 4) (sumX, sumY, count))
      else (sumX, sumY, count))"
  by pat_completeness auto
termination
  by (relation "measure (\<lambda>(frameData, prevData, w, i, acc). length frameData - i)") auto

declare scanPixels.simps [simp del]

text \<open>
  \<open>detectMotion\<close> takes the frame read from the motion canvas with the canvas width
  (\<open>None\<close> when the video, the canvas or its context is not ready) and the previous frame
  of \<open>prevFrameDataRef\<close>; it returns the motion sample and the new content of
  \<open>prevFrameDataRef\<close>.
\<close>

fun detectMotion :: "(nat \<times> frame) option \<Rightarrow> frame option
    \<Rightarrow> (real \<times> real) option \<times> frame option" where
  "detectMotion None prev = (None, prev)"
| "detectMotion (Some (w, frameData)) None = (None, Some frameData)"
| "detectMotion (Some (w, frameData)) (Some prevData) =
     (case scanPixels frameData prevData w 0 (0, 0, 0) of (sumX, sumY, count) \<Rightarrow>
        (if count > MIN_MOVEMENT_PIXELS then
           (let rawX = (real sumX / real count) * DOWNSAMPLE_FACTOR;
                rawY = (real sumY / real count) * DOWNSAMPLE_FACTOR;
                centerX = 640 / 2;
                centerY = 480 / 2;
                amplifiedX = centerX + (rawX - centerX) * MOTION_SENSITIVITY;
                amplifiedY = centerY + (rawY - centerY) * MOTION_SENSITIVITY;
                amplifiedX = max 0 (min 640 amplifiedX);
                amplifiedY = max 0 (min 480 amplifiedY)
            in Some (amplifiedX, amplifiedY))
         else None,
         Some frameData))"

text \<open>
  The qualifying pixels in the words of the spec: pixel \<open>k\<close> qualifies when the sum of the
  absolute differences of its red, green and blue channels between the two frames exceeds
  three times the noise threshold.
\<close>

definition channel :: "frame \<Rightarrow> nat \<Rightarrow> int" where
  "channel d i = uint (d ! i)"

definition qualifies :: "frame \<Rightarrow> frame \<Rightarrow> nat \<Rightarrow> bool" where
  "qualifies cur prev k \<longleftrightarrow>
     4 * k + 2 < length cur \<and> 4 * k + 2 < length prev \<and>
     \<bar>channel cur (4 * k) - channel prev (4 * k)\<bar>
     + \<bar>channel cur (4 * k + 1) - channel prev (4 * k + 1)\<bar>
     + \<bar>channel cur (4 * k + 2) - channel prev (4 * k + 2)\<bar> > 35 * 3"

definition qualifyingCount :: "frame \<Rightarrow> frame \<Rightarrow> nat" where
  "qualifyingCount cur prev =
     length (filter (qualifies cur prev) [0..<(length cur + 3) div 4])"

section \<open>Simulation context\<close>

datatype Sound = Slash | Hit | Wrong | Combo

text \<open>
  The React state (\<open>gameState\<close> to \<open>permissionGranted\<close>) and the reference cells of the
  component, with the part of the environment that the game logic acts on: the pending
  timeouts of the event loop (identifier and delay; the only callback ever scheduled is the
  combo reset), the next timer identifier, the sounds requested from \<open>playSound\<close>, the
  states passed to \<open>setGameState\<close>, and the stream that \<open>Math.random\<close> draws from.
  Rendering and the scheduling of animation frames are left out.
\<close>

record Ctx =
  gameState :: GameState
  levelData :: "LevelData option"
  score :: int
  combo :: int
  lives :: int
  errorMsg :: "string option"
  permissionGranted :: bool
  prevFrameDataRef :: "frame option"
  objectsRef :: "GameObject list"
  trailRef :: "TrailPoint list"
  particlesRef :: "Particle list"
  lastSpawnTimeRef :: real
  scoreRef :: int
  comboRef :: int
  comboTimerRef :: "nat option"
  livesRef :: int
  swordPosRef :: "real \<times> real"
  timers :: "(nat \<times> nat) list"
  nextTimerId :: nat
  sounds :: "Sound list"
  transitions :: "GameState list"
  rng :: "nat \<Rightarrow> real"

definition setGameState :: "GameState \<Rightarrow> Ctx \<Rightarrow> Ctx" where
  "setGameState g c = c\<lparr>gameState := g, transitions := transitions c @ [g]\<rparr>"

definition playSound :: "Sound \<Rightarrow> Ctx \<Rightarrow> Ctx" where
  "playSound kind c = c\<lparr>sounds := sounds c @ [kind]\<rparr>"

definition random :: "Ctx \<Rightarrow> real \<times> Ctx" where
  "random c = (rng c 0, c\<lparr>rng := (\<lambda>n. rng c (Suc n))\<rparr>)"

definition clearTimeout :: "nat \<Rightarrow> Ctx \<Rightarrow> Ctx" where
  "clearTimeout ident c = c\<lparr>timers := filter (\<lambda>t. fst t \<noteq> ident) (timers c)\<rparr>"

definition setTimeout :: "nat \<Rightarrow> Ctx \<Rightarrow> nat \<times> Ctx" where
  "setTimeout delay c =
     (nextTimerId c,
      c\<lparr>timers := timers c @ [(nextTimerId c, delay)], nextTimerId := nextTimerId c + 1\<rparr>)"

text \<open>The callback of the combo timer, run when the pending timeout \<open>ident\<close> expires.\<close>

definition fireTimer :: "nat \<Rightarrow> Ctx \<Rightarrow> Ctx" where
  "fireTimer ident c =
     (if ident \<in> fst ` set (timers c)
      then (clearTimeout ident c)\<lparr>comboRef := 0, combo := 0\<rparr>
      else c)"

text \<open>A timer identifier is truthy when it is not \<open>null\<close> and not zero.\<close>

definition incrementCombo :: "Ctx \<Rightarrow> Ctx" where
  "incrementCombo c =
     (let c = c\<lparr>comboRef := comboRef c + 1\<rparr>;
          c = c\<lparr>combo := comboRef c\<rparr>;
          c = (if comboRef c > 1 then playSound Combo c else c);
          c = (case comboTimerRef c of
                 Some ident \<Rightarrow> if ident \<noteq> 0 then clearTimeout ident c else c
               | None \<Rightarrow> c)
      in case setTimeout 1500 c of (ident, c) \<Rightarrow> c\<lparr>comboTimerRef := Some ident\<rparr>)"

text \<open>\<open>createSplatter\<close>: sixteen particles, three random draws each.\<close>

fun splatter :: "nat \<Rightarrow> real \<Rightarrow> real \<Rightarrow> string \<Rightarrow> Ctx \<Rightarrow> Ctx" where
  "splatter 0 x y color c = c"
| "splatter (Suc n) x y color c =
     (case random c of (r1, c) \<Rightarrow>
      case random c of (r2, c) \<Rightarrow>
      case random c of (r3, c) \<Rightarrow>
        (let angle = r1 * pi * 2;
             speed = r2 * 8 + 3
         in splatter n x y color
              (c\<lparr>particlesRef := particlesRef c @
                   [\<lparr>pt_x = x, pt_y = y, pt_vx = cos angle * speed, pt_vy = sin angle * speed,
                     pt_life = 1.0, pt_color = color, pt_size = r3 * 5 + 2\<rparr>]\<rparr>)))"

definition createSplatter :: "real \<Rightarrow> real \<Rightarrow> string \<Rightarrow> Ctx \<Rightarrow> Ctx" where
  "createSplatter x y color c = splatter 16 x y color c"

section \<open>Spawner\<close>

text \<open>
  The identifier of an object is a string derived from one random draw; the model keeps the
  draw itself. A label drawn from an empty vocabulary is \<open>undefined\<close>, here \<open>None\<close>.
\<close>

definition pick :: "string list \<Rightarrow> real \<Rightarrow> string option" where
  "pick list r =
     (let i = \<lfloor>r * real (length list)\<rfloor>
      in if 0 \<le> i \<and> i < int (length list) then Some (list ! nat i) else None)"

definition spawnObject :: "real \<Rightarrow> real \<Rightarrow> Ctx \<Rightarrow> Ctx" where
  "spawnObject width height c =
     (case levelData c of
        None \<Rightarrow> c
      | Some level \<Rightarrow>
         (case random c of (r1, c) \<Rightarrow>
          case random c of (r2, c) \<Rightarrow>
          case random c of (r3, c) \<Rightarrow>
          case random c of (r4, c) \<Rightarrow>
          case random c of (r5, c) \<Rightarrow>
          case random c of (r6, c) \<Rightarrow>
          case random c of (r7, c) \<Rightarrow>
            (let isTarget = (r1 > 0.35);
                 list = (if isTarget then targets level else distractors level);
                 text = pick list r2
             in c\<lparr>objectsRef := objectsRef c @
                  [\<lparr>obj_id = r3, obj_text = text,
                    obj_x = r4 * (width - 200) + 100,
                    obj_y = height + 80,
                    obj_vx = (r5 - 0.5) * 6,
                    obj_vy = - (r6 * 8 + 13),
                    obj_rotation = 0,
                    obj_vRotation = (r7 - 0.5) * 0.15,
                    obj_isTarget = isTarget,
                    obj_radius = 50,
                    obj_sliced = False,
                    obj_color = (if isTarget then ''#34d399'' else ''#f87171'')\<rparr>]\<rparr>)))"

section \<open>Game loop\<close>

text \<open>The block run when \<open>detectMotion\<close> returned a sample: smoothing, push, slash sound.\<close>

definition updateTrail :: "(real \<times> real) option \<Rightarrow> Ctx \<Rightarrow> Ctx" where
  "updateTrail motion c =
     (case motion of
        None \<Rightarrow> c
      | Some (mx, my) \<Rightarrow>
         (let sx = fst (swordPosRef c) + (mx - fst (swordPosRef c)) * 0.5;
              sy = snd (swordPosRef c) + (my - snd (swordPosRef c)) * 0.5;
              c = c\<lparr>swordPosRef := (sx, sy)\<rparr>;
              c = c\<lparr>trailRef := \<lparr>tp_x = sx, tp_y = sy, tp_life = 1.0\<rparr> # trailRef c\<rparr>
          in if length (trailRef c) > 2 then
               (let p1 = trailRef c ! 0;
                    p2 = trailRef c ! 2;
                    dist = sqrt ((tp_x p1 - tp_x p2)\<^sup>2 + (tp_y p1 - tp_y p2)\<^sup>2)
                in if dist > 50 then playSound Slash c else c)
             else c))"

text \<open>The decay of the trail and the filter that follows it.\<close>

definition decayTrail :: "Ctx \<Rightarrow> Ctx" where
  "decayTrail c =
     (let c = c\<lparr>trailRef := map (\<lambda>p. p\<lparr>tp_life := tp_life p - 0.12\<rparr>) (trailRef c)\<rparr>
      in c\<lparr>trailRef := filter (\<lambda>p. tp_life p > 0) (trailRef c)\<rparr>)"

definition updateParticle :: "Particle \<Rightarrow> Particle" where
  "updateParticle p =
     (let p = p\<lparr>pt_x := pt_x p + pt_vx p\<rparr>;
          p = p\<lparr>pt_y := pt_y p + pt_vy p\<rparr>;
          p = p\<lparr>pt_vy := pt_vy p + 0.15\<rparr>
      in p\<lparr>pt_life := pt_life p - 0.03\<rparr>)"

definition updateParticles :: "Ctx \<Rightarrow> Ctx" where
  "updateParticles c =
     (let c = c\<lparr>particlesRef := map updateParticle (particlesRef c)\<rparr>
      in c\<lparr>particlesRef := filter (\<lambda>p. pt_life p > 0) (particlesRef c)\<rparr>)"

text \<open>The first four statements of the loop over the objects.\<close>

definition moveObject :: "GameObject \<Rightarrow> GameObject" where
  "moveObject obj =
     (let obj = obj\<lparr>obj_x := obj_x obj + obj_vx obj\<rparr>;
          obj = obj\<lparr>obj_y := obj_y obj + obj_vy obj\<rparr>;
          obj = obj\<lparr>obj_vy := obj_vy obj + GRAVITY\<rparr>
      in obj\<lparr>obj_rotation := obj_rotation obj + obj_vRotation obj\<rparr>)"

text \<open>The body of the branch taken when a segment hits the object.\<close>

definition sliceObject :: "GameObject \<Rightarrow> Ctx \<Rightarrow> GameObject \<times> Ctx" where
  "sliceObject obj c =
     (let obj = obj\<lparr>obj_sliced := True\<rparr>;
          c = createSplatter (obj_x obj) (obj_y obj) (obj_color obj) c
      in if obj_isTarget obj then
           (let c = c\<lparr>scoreRef := scoreRef c + (10 + (comboRef c * 2))\<rparr>;
                c = c\<lparr>score := scoreRef c\<rparr>;
                c = incrementCombo c
            in (obj, playSound Hit c))
         else
           (let c = c\<lparr>livesRef := livesRef c - 1\<rparr>;
                c = c\<lparr>lives := livesRef c\<rparr>;
                c = c\<lparr>comboRef := 0\<rparr>;
                c = c\<lparr>combo := 0\<rparr>;
                c = playSound Wrong c
            in (obj, if livesRef c \<le> 0 then setGameState GAME_OVER c else c)))"

text \<open>
  The loop over the segments of the blade:
  \<open>for (let i = 0; i < Math.min(5, trailRef.current.length - 1); i++)\<close>, left by \<open>break\<close>
  at the first hit.
\<close>

function segmentLoop :: "nat \<Rightarrow> GameObject \<Rightarrow> Ctx \<Rightarrow> GameObject \<times> Ctx" where
  "segmentLoop i obj c =
     (if i < min 5 (length (trailRef c) - 1) then
        (if checkCollision (trailRef c ! i) (trailRef c ! (i + 1)) obj
         then sliceObject obj c
         else segmentLoop (i + 1) obj c)
      else (obj, c))"
  by pat_completeness auto
termination
  by (relation "measure (\<lambda>(i, obj, c). 5 - i)") auto

declare segmentLoop.simps [simp del]

definition updateObject :: "GameObject \<Rightarrow> Ctx \<Rightarrow> GameObject \<times> Ctx" where
  "updateObject obj c =
     (let obj = moveObject obj
      in if \<not> obj_sliced obj \<and> length (trailRef c) > 2
         then segmentLoop 0 obj c
         else (obj, c))"

fun forEachObject :: "GameObject list \<Rightarrow> Ctx \<Rightarrow> GameObject list \<times> Ctx" where
  "forEachObject [] c = ([], c)"
| "forEachObject (obj # rest) c =
     (case updateObject obj c of (obj, c) \<Rightarrow>
      case forEachObject rest c of (rest, c) \<Rightarrow> (obj # rest, c))"

text \<open>
  One call of \<open>gameLoop\<close>, up to the rendering: \<open>canvas\<close> is the size of the game canvas
  (\<open>None\<close> when the canvas or its context is missing), \<open>video\<close> the input of
  \<open>detectMotion\<close>. The closure reads \<open>gameState\<close> and \<open>levelData\<close> as they were when the
  call started.
\<close>

definition gameLoop :: "real \<Rightarrow> (real \<times> real) option \<Rightarrow> (nat \<times> frame) option \<Rightarrow> Ctx \<Rightarrow> Ctx" where
  "gameLoop time canvas video c =
     (case canvas of
        None \<Rightarrow> c
      | Some (width, height) \<Rightarrow>
         if gameState c \<noteq> PLAYING then c
         else
          (case detectMotion video (prevFrameDataRef c) of (motion, prev) \<Rightarrow>
            (let c = c\<lparr>prevFrameDataRef := prev\<rparr>;
                 c = updateTrail motion c;
                 c = decayTrail c;
                 c = updateParticles c
             in case forEachObject (objectsRef c) c of (objs, c) \<Rightarrow>
               (let c = c\<lparr>objectsRef :=
                          filter (\<lambda>obj. obj_y obj < height + 100 \<and> \<not> obj_sliced obj) objs\<rparr>
                in if time - lastSpawnTimeRef c > SPAWN_RATE
                   then (spawnObject width height c)\<lparr>lastSpawnTimeRef := time\<rparr>
                   else c))))"

text \<open>A run of calls of \<open>gameLoop\<close>, one per animation frame, each with its own inputs.\<close>

fun runLoop :: "(real \<times> (real \<times> real) option \<times> (nat \<times> frame) option) list \<Rightarrow> Ctx \<Rightarrow> Ctx" where
  "runLoop [] c = c"
| "runLoop ((time, canvas, video) # rest) c = runLoop rest (gameLoop time canvas video c)"

text \<open>
  Continuous motion: what a run of calls does to the trail when \<open>detectMotion\<close> returns
  a sample in every one of them.
\<close>

fun continuousMotion :: "(real \<times> real) list \<Rightarrow> Ctx \<Rightarrow> Ctx" where
  "continuousMotion [] c = c"
| "continuousMotion (m # ms) c = continuousMotion ms (decayTrail (updateTrail (Some m) c))"

section \<open>Startup\<close>

text \<open>
  The content service answers with a text, with no text, or the call throws;
  \<open>JSON.parse\<close> is a parameter, \<open>None\<close> standing for its \<open>SyntaxError\<close>.
\<close>

datatype ServiceResult = ServiceThrows | ServiceResponse "string option"

datatype LevelError = ServiceFailure | NoResponse | SyntaxError

definition generateLevel :: "(string \<Rightarrow> LevelData option) \<Rightarrow> ServiceResult \<Rightarrow> LevelError + LevelData" where
  "generateLevel parse service =
     (case service of
        ServiceThrows \<Rightarrow> Inl ServiceFailure
      | ServiceResponse None \<Rightarrow> Inl NoResponse
      | ServiceResponse (Some text) \<Rightarrow>
          if text = [] then Inl NoResponse
          else (case parse text of None \<Rightarrow> Inl SyntaxError | Some level \<Rightarrow> Inr level))"

text \<open>
  \<open>startCamera\<close>: the request for the stream either throws, which the function catches
  itself, or succeeds, and then nothing changes until the metadata of the video load.
\<close>

definition startCamera :: "bool \<Rightarrow> Ctx \<Rightarrow> Ctx" where
  "startCamera streamGranted c =
     (if streamGranted then c
      else setGameState ERROR (c\<lparr>errorMsg := Some ''Camera access required.''\<rparr>))"

definition initializeGame :: "(string \<Rightarrow> LevelData option) \<Rightarrow> bool \<Rightarrow> ServiceResult \<Rightarrow> Ctx \<Rightarrow> Ctx" where
  "initializeGame parse streamGranted service c0 =
     (let c = setGameState LOADING_LEVEL c0;
          c = (if \<not> permissionGranted c0 then startCamera streamGranted c else c)
      in case generateLevel parse service of
           Inr level \<Rightarrow>
             setGameState PLAYING
               (c\<lparr>levelData := Some level, score := 0, combo := 0, lives := 3,
                  scoreRef := 0, comboRef := 0, livesRef := 3,
                  objectsRef := [], trailRef := [], particlesRef := []\<rparr>)
         | Inl e \<Rightarrow>
             setGameState ERROR (c\<lparr>errorMsg := Some ''AI Dojo disconnected.''\<rparr>))"

text \<open>The component as it is mounted, for a given random stream.\<close>

definition initialCtx :: "(nat \<Rightarrow> real) \<Rightarrow> Ctx" where
  "initialCtx r =
     \<lparr>gameState = MENU, levelData = None, score = 0, combo = 0, lives = 3, errorMsg = None,
      permissionGranted = False, prevFrameDataRef = None, objectsRef = [], trailRef = [],
      particlesRef = [], lastSpawnTimeRef = 0, scoreRef = 0, comboRef = 0,
      comboTimerRef = None, livesRef = 3, swordPosRef = (320, 240), timers = [],
      nextTimerId = 1, sounds = [], transitions = [], rng = r\<rparr>"

section \<open>Observations and invariants\<close>

text \<open>
  Every slice event requests exactly one of the sounds \<open>Hit\<close> and \<open>Wrong\<close>, and nothing
  else does: their number counts the slice events so far.
\<close>

definition sliceEvents :: "Ctx \<Rightarrow> nat" where
  "sliceEvents c = length (filter (\<lambda>s. s = Hit \<or> s = Wrong) (sounds c))"

text \<open>
  The trail between two calls of the game loop: from the newest point to the oldest the
  life drops by at least one decay step, and every life lies between 0 (excluded) and the
  life of a point that was decayed once.
\<close>

definition trailInv :: "TrailPoint list \<Rightarrow> bool" where
  "trailInv ts \<longleftrightarrow>
     sorted_wrt (\<lambda>p q. tp_life q + 0.12 \<le> tp_life p) ts
     \<and> list_all (\<lambda>p. 0 < tp_life p \<and> tp_life p \<le> 0.88) ts"

section \<open>Scenario data\<close>

definition trailPoint :: "real \<Rightarrow> real \<Rightarrow> TrailPoint" where
  "trailPoint px py = \<lparr>tp_x = px, tp_y = py, tp_life = 1\<rparr>"

definition gameObject :: "real \<Rightarrow> real \<Rightarrow> bool \<Rightarrow> GameObject" where
  "gameObject cx cy isTarget =
     \<lparr>obj_id = 0, obj_text = None, obj_x = cx, obj_y = cy, obj_vx = 0, obj_vy = 0,
      obj_rotation = 0, obj_vRotation = 0, obj_isTarget = isTarget, obj_radius = 50,
      obj_sliced = False, obj_color = (if isTarget then ''#34d399'' else ''#f87171'')\<rparr>"


definition zeroStream :: "nat \<Rightarrow> real" where
  "zeroStream n = 0"

text \<open>A game in progress, before and after a first target was sliced.\<close>

definition playingCtx :: Ctx where
  "playingCtx = (initialCtx zeroStream)\<lparr>gameState := PLAYING\<rparr>"

definition afterTargetHit :: Ctx where
  "afterTargetHit = snd (sliceObject (gameObject 100 100 True) playingCtx)"

definition particle :: "real \<Rightarrow> real \<Rightarrow> Particle" where
  "particle px py =
     \<lparr>pt_x = px, pt_y = py, pt_vx = 0, pt_vy = 0, pt_life = 1, pt_color = ''#34d399'',
      pt_size = 2\<rparr>"

definition noParse :: "string \<Rightarrow> LevelData option" where
  "noParse text = None"

text \<open>Two frames of one pixel, and a blade of two segments that meet at (200, 100).\<close>

definition whiteFrame :: frame where
  "whiteFrame = [255, 255, 255, 255]"

definition blackFrame :: frame where
  "blackFrame = [0, 0, 0, 255]"

definition blade :: "TrailPoint list" where
  "blade = [trailPoint 0 100, trailPoint 200 100, trailPoint 400 100]"

definition slashingCtx :: Ctx where
  "slashingCtx = playingCtx\<lparr>trailRef := blade\<rparr>"

definition waitingCtx :: Ctx where
  "waitingCtx = playingCtx\<lparr>objectsRef := [gameObject 100 100 True]\<rparr>"

section \<open>Rounding\<close>

lemma roundEven_of_int [simp]: "roundEven (of_int z) = z"
  by (simp add: roundEven_def)

lemma roundEven_0 [simp]: "roundEven 0 = 0"
  by (simp add: roundEven_def)

lemma roundEven_lower: "\<lfloor>r\<rfloor> \<le> roundEven r"
  by (simp add: roundEven_def Let_def)

lemma roundEven_upper: "roundEven r \<le> \<lfloor>r\<rfloor> + 1"
  by (simp add: roundEven_def Let_def)

lemma roundEven_abs_le:
  assumes "\<bar>r\<bar> < of_int B"
  shows "\<bar>roundEven r\<bar> \<le> B"
proof -
  from assms have "r < of_int B" "- of_int B < r" by linarith+
  then have "\<lfloor>r\<rfloor> < B" "- B \<le> \<lfloor>r\<rfloor>"
    by (simp_all add: floor_less_iff le_floor_iff less_imp_le)
  with roundEven_lower [of r] roundEven_upper [of r] show ?thesis by linarith
qed

lemma exponentFrom_found:
  assumes "2 powi e \<le> a" and "a < 2 powi (e + 1)" and "e \<le> E" and "E - int n \<le> e"
  shows "exponentFrom n E a = e"
  using assms
proof (induction n arbitrary: E)
  case 0
  then show ?case by simp
next
  case (Suc n)
  show ?case
  proof (cases "2 powi E \<le> a")
    case True
    with Suc.prems(2) have "(2::real) powi E < 2 powi (e + 1)" by linarith
    then have "E < e + 1"
      by (metis linorder_not_less power_int_increasing one_le_numeral)
    with Suc.prems(3) True show ?thesis by simp
  next
    case False
    with Suc.prems(1) have "E \<noteq> e" by auto
    with Suc.prems have "exponentFrom n (E - 1) a = e"
      by (intro Suc.IH) simp_all
    with False show ?thesis by simp
  qed
qed

lemma exponentFrom_floor:
  assumes "a < 2 powi (E - int n + 1)"
  shows "exponentFrom n E a = E - int n"
  using assms
proof (induction n arbitrary: E)
  case 0
  then show ?case by simp
next
  case (Suc n)
  have "(2::real) powi (E - int (Suc n) + 1) \<le> 2 powi E"
    by (intro power_int_increasing) simp_all
  with Suc.prems have "\<not> 2 powi E \<le> a" by linarith
  moreover from Suc.prems have "exponentFrom n (E - 1) a = E - 1 - int n"
    by (intro Suc.IH) (simp add: algebra_simps)
  ultimately show ?case by simp
qed

lemma exponent_normal:
  assumes "2 powi e \<le> a" and "a < 2 powi (e + 1)" and "- 1022 \<le> e" and "e \<le> 1023"
  shows "exponent a = e"
  unfolding exponent_def using assms by (intro exponentFrom_found) simp_all

lemma exponent_subnormal:
  assumes "a < 2 powi (- 1021)"
  shows "exponent a = - 1022"
  unfolding exponent_def using exponentFrom_floor [of a 1023 2045] assms by simp

lemma binary64_normal:
  assumes lo: "2 powi e \<le> \<bar>x\<bar>" and hi: "\<bar>x\<bar> < 2 powi (e + 1)"
    and e: "- 1022 \<le> e" "e \<le> 1022"
  shows "binary64 x = Fin (of_int (roundEven (x / 2 powi (e - 52))) * 2 powi (e - 52))"
proof -
  let ?u = "(2::real) powi (e - 52)"
  have u: "0 < ?u" by simp
  have ex: "exponent \<bar>x\<bar> = e"
    using lo hi e by (intro exponent_normal) simp_all
  have "\<bar>x / ?u\<bar> = \<bar>x\<bar> / ?u" using u by simp
  also have "\<dots> < 2 powi (e + 1) / ?u"
    using hi u by (simp add: divide_strict_right_mono)
  also have "\<dots> = 2 powi 53"
    by (simp flip: power_int_diff)
  finally have "\<bar>x / ?u\<bar> < of_int (2 ^ 53)" by simp
  then have "\<bar>roundEven (x / ?u)\<bar> \<le> 2 ^ 53"
    by (rule roundEven_abs_le)
  then have "\<bar>real_of_int (roundEven (x / ?u))\<bar> \<le> 2 powi 53"
    by (metis of_int_abs of_int_le_iff of_int_numeral of_int_power power_int_numeral)
  then have "\<bar>of_int (roundEven (x / ?u)) * ?u\<bar> \<le> 2 powi 53 * ?u"
    using u by (simp add: abs_mult mult_right_mono)
  also have "\<dots> = 2 powi (53 + (e - 52))"
    by (rule power_int_add [symmetric]) simp
  also have "53 + (e - 52) = e + 1" by simp
  also have "(2::real) powi (e + 1) < 2 powi 1024"
    using e by (intro power_int_strict_increasing) simp_all
  finally have "\<not> 2 powi 1024 \<le> \<bar>of_int (roundEven (x / ?u)) * ?u\<bar>" by simp
  then show ?thesis
    unfolding binary64_def ex Let_def by (simp only: if_False)
qed

lemma binary64_0 [simp]: "binary64 0 = Fin 0"
proof -
  have "exponent \<bar>0\<bar> = - 1022"
    by (intro exponent_subnormal) simp
  then show ?thesis
    by (simp add: binary64_def Let_def)
qed

lemma binary64_eval:
  assumes "2 powi e \<le> \<bar>x\<bar>" and "\<bar>x\<bar> < 2 powi (e + 1)" and "- 1022 \<le> e" and "e \<le> 1022"
    and "of_int (roundEven (x / 2 powi (e - 52))) * 2 powi (e - 52) = y"
  shows "binary64 x = Fin y"
  using binary64_normal [OF assms(1-4)] assms(5) by simp

lemma roundEven_small:
  assumes "\<bar>r\<bar> < 1 / 2"
  shows "roundEven r = 0"
proof (cases "0 \<le> r")
  case True
  with assms have "\<lfloor>r\<rfloor> = 0" by (simp add: floor_eq_iff)
  with assms True show ?thesis by (simp add: roundEven_def)
next
  case False
  with assms have "\<lfloor>r\<rfloor> = - 1" by (simp add: floor_eq_iff)
  with assms False show ?thesis by (simp add: roundEven_def)
qed

lemma binary64_tiny:
  assumes "\<bar>x\<bar> < 2 powi (- 1075)"
  shows "binary64 x = Fin 0"
proof -
  let ?u = "(2::real) powi (- 1074)"
  have u: "0 < ?u" by (rule zero_less_power_int) simp
  have "(2::real) powi (- 1075) \<le> 2 powi (- 1021)"
    by (intro power_int_increasing) simp_all
  with assms have ex: "exponent \<bar>x\<bar> = - 1022"
    by (intro exponent_subnormal) linarith
  have "\<bar>x / ?u\<bar> = \<bar>x\<bar> / ?u" using u by (simp only: abs_divide abs_of_pos)
  also have "\<dots> < 2 powi (- 1075) / ?u"
    using assms u by (rule divide_strict_right_mono)
  also have "2 powi (- 1075) / ?u = 2 powi (- 1075 - (- 1074))"
    by (rule power_int_diff [symmetric]) simp
  also have "\<dots> = 1 / 2" by simp
  finally have "roundEven (x / ?u) = 0" by (rule roundEven_small)
  then have "real_of_int (roundEven (x / 2 powi (- 1022 - 52))) * 2 powi (- 1022 - 52) = 0"
    by simp
  moreover have "\<not> (2::real) powi 1024 \<le> \<bar>0\<bar>"
    by (simp only: abs_zero not_le zero_less_power_int zero_less_numeral)
  ultimately show ?thesis
    unfolding binary64_def ex Let_def by (simp only: if_False)
qed

lemma binade_exists:
  assumes "1 \<le> (a::real)"
  shows "\<exists>e\<ge>0. 2 powi e \<le> a \<and> a < 2 powi (e + 1)"
proof -
  define e where "e = \<lfloor>log 2 a\<rfloor>"
  from assms have pos: "0 < a" by simp
  have "\<lfloor>log 2 a\<rfloor> = e" by (simp add: e_def)
  then have "2 powr real_of_int e \<le> a \<and> a < 2 powr real_of_int (e + 1)"
    using pos by (subst (asm) floor_log_eq_powr_iff) simp_all
  then have bounds: "2 powi e \<le> a \<and> a < 2 powi (e + 1)"
    by (simp only: powr_real_of_int' [of 2, simplified])
  have "0 \<le> log 2 a" using assms by simp
  then have "0 \<le> e" by (simp add: e_def)
  with bounds show ?thesis by blast
qed

lemma binary64_int:
  assumes "\<bar>n\<bar> < 2 ^ 53"
  shows "binary64 (of_int n) = Fin (of_int n)"
proof (cases "n = 0")
  case True
  then show ?thesis by simp
next
  case False
  then have "1 \<le> \<bar>n\<bar>" by simp
  then have "real_of_int 1 \<le> real_of_int \<bar>n\<bar>" by (simp only: of_int_le_iff)
  then have one: "1 \<le> \<bar>real_of_int n\<bar>" by simp
  then obtain e where e: "0 \<le> e" "2 powi e \<le> \<bar>real_of_int n\<bar>"
    "\<bar>real_of_int n\<bar> < 2 powi (e + 1)"
    using binade_exists by blast
  from assms have "real_of_int \<bar>n\<bar> < real_of_int (2 ^ 53)" by (simp only: of_int_less_iff)
  then have "\<bar>real_of_int n\<bar> < 2 powi 53" by simp
  with e(2) have "(2::real) powi e < 2 powi 53" by linarith
  then have "e < 53"
    by (metis linorder_not_less power_int_increasing one_le_numeral)
  define k where "k = nat (52 - e)"
  have k: "52 - e = int k" using \<open>e < 53\<close> by (simp add: k_def)
  have inv: "(2::real) powi (e - 52) = 1 / 2 ^ k"
  proof -
    have "e - 52 = - int k" using k by simp
    then have "(2::real) powi (e - 52) = inverse (2 powi int k)"
      by (simp only: power_int_minus)
    then show ?thesis by (simp add: inverse_eq_divide)
  qed
  have "real_of_int n / 2 powi (e - 52) = real_of_int (n * 2 ^ k)"
    by (simp add: inv)
  then have "roundEven (real_of_int n / 2 powi (e - 52)) = n * 2 ^ k"
    by (simp only: roundEven_of_int)
  moreover have "real_of_int (n * 2 ^ k) * 2 powi (e - 52) = real_of_int n"
    by (simp add: inv)
  moreover have "binary64 (of_int n)
      = Fin (of_int (roundEven (of_int n / 2 powi (e - 52))) * 2 powi (e - 52))"
    using e \<open>e < 53\<close> by (intro binary64_normal) simp_all
  ultimately show ?thesis by simp
qed

lemma binary64_numeral [simp]:
  "(numeral k :: int) < 2 ^ 53 \<Longrightarrow> binary64 (numeral k) = Fin (numeral k)"
  using binary64_int [of "numeral k"] by simp

lemma binary64_neg_numeral [simp]:
  "(numeral k :: int) < 2 ^ 53 \<Longrightarrow> binary64 (- numeral k) = Fin (- numeral k)"
  using binary64_int [of "- numeral k"] by simp

lemma binary64_1 [simp]: "binary64 1 = Fin 1"
  using binary64_int [of 1] by simp

lemma binary64_half [simp]: "binary64 (1 / 2) = Fin (1 / 2)"
  by (subst binary64_normal [of "- 1"]) (simp_all add: roundEven_def)

lemma js_sub_NaN [simp]: "js_sub a NaN = NaN"
  by (cases a) simp_all

lemma js_sub_NaN_left [simp]: "js_sub NaN b = NaN"
  by (cases b) simp_all

lemma js_add_NaN [simp]: "js_add a NaN = NaN"
  by (cases a) simp_all

lemma js_mul_NaN [simp]: "js_mul a NaN = NaN"
  by (cases a) simp_all

lemma js_sq_Fin [simp]: "js_sq (Fin a) = binary64 (a * a)"
  by (simp add: js_sq_def)

lemma js_sq_NaN [simp]: "js_sq NaN = NaN"
  by (simp add: js_sq_def)

lemma js_lt_NaN [simp]: "js_lt a NaN = False"
  by (cases a) simp_all


section \<open>Properties of the collision test\<close>




text \<open>A product with zero is zero, or \<open>NaN\<close> when the other factor is not finite.\<close>

lemma js_mul_zero: "js_mul a (Fin 0) = Fin 0 \<or> js_mul a (Fin 0) = NaN"
  by (cases a) simp_all

lemma projection_degenerate:
  assumes "sameEndpoints p1 p2"
  shows "projection p1 p2 obj = NaN"
proof -
  from assms have same: "tp_x p2 = tp_x p1" "tp_y p2 = tp_y p1"
    by (simp_all add: sameEndpoints_def)
  let ?a = "js_sub (Fin (obj_x obj)) (Fin (tp_x p1))"
  let ?b = "js_sub (Fin (obj_y obj)) (Fin (tp_y p1))"
  have "js_add (js_mul ?a (Fin 0)) (js_mul ?b (Fin 0)) = Fin 0
        \<or> js_add (js_mul ?a (Fin 0)) (js_mul ?b (Fin 0)) = NaN"
    using js_mul_zero [of ?a] js_mul_zero [of ?b] by auto
  then have "js_div (js_add (js_mul ?a (Fin 0)) (js_mul ?b (Fin 0))) (Fin 0) = NaN"
    by auto
  then show ?thesis
    by (simp add: projection_def same Let_def)
qed

lemma checkCollision_degenerate:
  assumes "sameEndpoints p1 p2"
  shows "\<not> checkCollision p1 p2 obj"
  by (simp add: checkCollision_def projection_degenerate [OF assms] Let_def)





















text \<open>
  The squared length of a segment between two distinct points underflows to zero when the
  points are close enough: the test then reports no hit for a centre on the segment.
\<close>

lemma squared_length_underflow:
  "\<not> sameEndpoints (trailPoint 0 0) (trailPoint (2 powi (- 540)) 0)"
  "\<not> checkCollision (trailPoint 0 0) (trailPoint (2 powi (- 540)) 0) (gameObject 0 0 True)"
  "closestDistSq (trailPoint 0 0) (trailPoint (2 powi (- 540)) 0) (gameObject 0 0 True) = 0"
proof -
  let ?d = "(2::real) powi (- 540)"
  have d: "0 < ?d" by (rule zero_less_power_int) simp
  show "\<not> sameEndpoints (trailPoint 0 0) (trailPoint ?d 0)"
    using d by (simp add: sameEndpoints_def trailPoint_def del: power_int_numeral_neg_numeral)
  have "?d * ?d = 2 powi (- 540 + - 540)"
    by (rule power_int_add [symmetric]) simp
  also have "\<dots> < 2 powi (- 1075)"
    by (intro power_int_strict_increasing) simp_all
  finally have "\<bar>?d * ?d\<bar> < 2 powi (- 1075)" using d by (simp only: abs_mult abs_of_pos)
  then have sq: "binary64 (?d * ?d) = Fin 0" by (rule binary64_tiny)
  have rd: "binary64 ?d = Fin ?d"
    by (rule binary64_eval [of "- 540"]) (simp_all add: roundEven_def)
  have "projection (trailPoint 0 0) (trailPoint ?d 0) (gameObject 0 0 True) = NaN"
    unfolding projection_def Let_def trailPoint_def gameObject_def
    by (simp only: TrailPoint.simps GameObject.simps js_sub.simps diff_zero binary64_0
        js_mul.simps mult_zero_left mult_zero_right js_add.simps add_0_right add_0_left
        rd sq js_div.simps simp_thms if_False if_True)
  then show "\<not> checkCollision (trailPoint 0 0) (trailPoint ?d 0) (gameObject 0 0 True)"
    by (simp add: checkCollision_def Let_def del: power_int_numeral_neg_numeral)
  show "closestDistSq (trailPoint 0 0) (trailPoint ?d 0) (gameObject 0 0 True) = 0"
    by (simp add: closestDistSq_def distSqAt_def clampedParam_def trailPoint_def gameObject_def
        del: power_int_numeral_neg_numeral)
qed








text \<open>
  C10. For a segment whose two endpoints are the same point the projection parameter is
  the quotient of zero by zero, \<open>NaN\<close>, and the collision test reports no hit, whatever the
  object: also when its centre is that very point.
\<close>

theorem checkCollision_degenerate_segment:
  "sameEndpoints p1 p2 \<Longrightarrow> projection p1 p2 obj = NaN \<and> \<not> checkCollision p1 p2 obj"
  by (simp add: projection_degenerate checkCollision_degenerate)

theorem checkCollision_degenerate_segment_witness:
  "sameEndpoints (trailPoint 100 100) (trailPoint 100 100)
   \<and> obj_x (gameObject 100 100 True) = tp_x (trailPoint 100 100)
   \<and> obj_y (gameObject 100 100 True) = tp_y (trailPoint 100 100)
   \<and> projection (trailPoint 100 100) (trailPoint 100 100) (gameObject 100 100 True) = NaN
   \<and> \<not> checkCollision (trailPoint 100 100) (trailPoint 100 100) (gameObject 100 100 True)"
  using checkCollision_degenerate_segment
    [of "trailPoint 100 100" "trailPoint 100 100" "gameObject 100 100 True"]
  by (simp add: sameEndpoints_def trailPoint_def gameObject_def)

section \<open>Scoring, lives and startup\<close>

lemma splatter_frame:
  "\<exists>ps r. splatter n x y color c = c\<lparr>particlesRef := ps, rng := r\<rparr>"
proof (induction n arbitrary: c)
  case 0
  have "c = c\<lparr>particlesRef := particlesRef c, rng := rng c\<rparr>" by simp
  then show ?case by (metis splatter.simps(1))
next
  case (Suc n)
  define p where "p = \<lparr>pt_x = x, pt_y = y,
      pt_vx = cos (rng c 0 * pi * 2) * (rng c (Suc 0) * 8 + 3),
      pt_vy = sin (rng c 0 * pi * 2) * (rng c (Suc 0) * 8 + 3),
      pt_life = 1, pt_color = color, pt_size = rng c (Suc (Suc 0)) * 5 + 2\<rparr>"
  define c' where "c' = c\<lparr>rng := \<lambda>n. rng c (Suc (Suc (Suc n))),
      particlesRef := particlesRef c @ [p]\<rparr>"
  have step: "splatter (Suc n) x y color c = splatter n x y color c'"
    by (simp add: random_def Let_def c'_def p_def)
  from Suc [of c'] obtain ps r
    where ih: "splatter n x y color c' = c'\<lparr>particlesRef := ps, rng := r\<rparr>"
    by blast
  have "c'\<lparr>particlesRef := ps, rng := r\<rparr> = c\<lparr>particlesRef := ps, rng := r\<rparr>"
    by (simp add: c'_def)
  with step ih have "splatter (Suc n) x y color c = c\<lparr>particlesRef := ps, rng := r\<rparr>"
    by (simp only:)
  then show ?case by blast
qed

lemma createSplatter_frame:
  "\<exists>ps r. createSplatter x y color c = c\<lparr>particlesRef := ps, rng := r\<rparr>"
  unfolding createSplatter_def by (rule splatter_frame)

lemma incrementCombo_scoreRef: "scoreRef (incrementCombo c) = scoreRef c"
  by (simp add: incrementCombo_def Let_def playSound_def clearTimeout_def setTimeout_def
      split: option.split)

lemma incrementCombo_comboRef: "comboRef (incrementCombo c) = comboRef c + 1"
  by (simp add: incrementCombo_def Let_def playSound_def clearTimeout_def setTimeout_def
      split: option.split)

lemma incrementCombo_combo: "combo (incrementCombo c) = comboRef c + 1"
  by (simp add: incrementCombo_def Let_def playSound_def clearTimeout_def setTimeout_def
      split: option.split)

lemma incrementCombo_score: "score (incrementCombo c) = score c"
  by (simp add: incrementCombo_def Let_def playSound_def clearTimeout_def setTimeout_def
      split: option.split)

lemma incrementCombo_lives: "livesRef (incrementCombo c) = livesRef c \<and> lives (incrementCombo c) = lives c
   \<and> gameState (incrementCombo c) = gameState c"
  by (simp add: incrementCombo_def Let_def playSound_def clearTimeout_def setTimeout_def
      split: option.split)

lemma sliceObject_target:
  assumes "obj_isTarget obj"
  shows "scoreRef (snd (sliceObject obj c)) = scoreRef c + (10 + 2 * comboRef c)"
    and "score (snd (sliceObject obj c)) = scoreRef c + (10 + 2 * comboRef c)"
    and "comboRef (snd (sliceObject obj c)) = comboRef c + 1"
    and "combo (snd (sliceObject obj c)) = comboRef c + 1"
    and "livesRef (snd (sliceObject obj c)) = livesRef c"
    and "gameState (snd (sliceObject obj c)) = gameState c"
proof -
  obtain ps r where cs: "createSplatter (obj_x obj) (obj_y obj) (obj_color obj) c
      = c\<lparr>particlesRef := ps, rng := r\<rparr>"
    using createSplatter_frame by blast
  show "scoreRef (snd (sliceObject obj c)) = scoreRef c + (10 + 2 * comboRef c)"
    and "score (snd (sliceObject obj c)) = scoreRef c + (10 + 2 * comboRef c)"
    and "comboRef (snd (sliceObject obj c)) = comboRef c + 1"
    and "combo (snd (sliceObject obj c)) = comboRef c + 1"
    and "livesRef (snd (sliceObject obj c)) = livesRef c"
    and "gameState (snd (sliceObject obj c)) = gameState c"
    using assms
    by (simp_all add: sliceObject_def Let_def cs playSound_def incrementCombo_scoreRef
        incrementCombo_comboRef incrementCombo_combo incrementCombo_score incrementCombo_lives)
qed

lemma sliceObject_distractor:
  assumes "\<not> obj_isTarget obj"
  shows "livesRef (snd (sliceObject obj c)) = livesRef c - 1"
    and "lives (snd (sliceObject obj c)) = livesRef c - 1"
    and "comboRef (snd (sliceObject obj c)) = 0"
    and "combo (snd (sliceObject obj c)) = 0"
    and "timers (snd (sliceObject obj c)) = timers c"
    and "comboTimerRef (snd (sliceObject obj c)) = comboTimerRef c"
    and "scoreRef (snd (sliceObject obj c)) = scoreRef c"
    and "gameState (snd (sliceObject obj c)) = (if livesRef c - 1 \<le> 0 then GAME_OVER else gameState c)"
proof -
  obtain ps r where cs: "createSplatter (obj_x obj) (obj_y obj) (obj_color obj) c
      = c\<lparr>particlesRef := ps, rng := r\<rparr>"
    using createSplatter_frame by blast
  show "livesRef (snd (sliceObject obj c)) = livesRef c - 1"
    and "lives (snd (sliceObject obj c)) = livesRef c - 1"
    and "comboRef (snd (sliceObject obj c)) = 0"
    and "combo (snd (sliceObject obj c)) = 0"
    and "timers (snd (sliceObject obj c)) = timers c"
    and "comboTimerRef (snd (sliceObject obj c)) = comboTimerRef c"
    and "scoreRef (snd (sliceObject obj c)) = scoreRef c"
    and "gameState (snd (sliceObject obj c)) = (if livesRef c - 1 \<le> 0 then GAME_OVER else gameState c)"
    using assms
    by (simp_all add: sliceObject_def Let_def cs playSound_def setGameState_def)
qed

lemma incrementCombo_timers:
  "timers (incrementCombo c) =
     (case comboTimerRef c of
        Some ident \<Rightarrow> if ident \<noteq> 0 then filter (\<lambda>t. fst t \<noteq> ident) (timers c) else timers c
      | None \<Rightarrow> timers c) @ [(nextTimerId c, 1500)]"
  by (simp add: incrementCombo_def Let_def playSound_def clearTimeout_def setTimeout_def
      split: option.split)

lemma incrementCombo_comboTimerRef:
  "comboTimerRef (incrementCombo c) = Some (nextTimerId c)"
  by (simp add: incrementCombo_def Let_def playSound_def clearTimeout_def setTimeout_def
      split: option.split)

lemma sliceObject_target_timers:
  assumes "obj_isTarget obj"
  shows "timers (snd (sliceObject obj c)) = timers (incrementCombo c)"
    and "comboTimerRef (snd (sliceObject obj c)) = Some (nextTimerId c)"
proof -
  obtain ps r where cs: "createSplatter (obj_x obj) (obj_y obj) (obj_color obj) c
      = c\<lparr>particlesRef := ps, rng := r\<rparr>"
    using createSplatter_frame by blast
  show "timers (snd (sliceObject obj c)) = timers (incrementCombo c)"
    and "comboTimerRef (snd (sliceObject obj c)) = Some (nextTimerId c)"
    using assms
    by (simp_all add: sliceObject_def Let_def cs playSound_def incrementCombo_timers
        incrementCombo_comboTimerRef split: option.split)
qed

lemma gameLoop_not_playing:
  "gameState c \<noteq> PLAYING \<Longrightarrow> gameLoop time canvas video c = c"
  by (simp add: gameLoop_def split: option.split)

text \<open>
  C2. A target hit adds \<open>10 + 2 * c\<close> to the score, \<open>c\<close> being the combo count just before
  the hit, and then raises the combo count by one; the displayed score and combo follow.
  With a combo count of 3 the score grows by 16. Outside the state \<open>PLAYING\<close> the game loop
  changes nothing, so that no slice event occurs.
\<close>

theorem target_hit_scoring:
  "(obj_isTarget obj \<longrightarrow>
      scoreRef (snd (sliceObject obj c)) = scoreRef c + (10 + 2 * comboRef c)
      \<and> score (snd (sliceObject obj c)) = scoreRef (snd (sliceObject obj c))
      \<and> comboRef (snd (sliceObject obj c)) = comboRef c + 1
      \<and> combo (snd (sliceObject obj c)) = comboRef (snd (sliceObject obj c)))
   \<and> (obj_isTarget obj \<and> comboRef c = 3 \<longrightarrow>
      scoreRef (snd (sliceObject obj c)) = scoreRef c + 16)
   \<and> (gameState c \<noteq> PLAYING \<longrightarrow> gameLoop time canvas video c = c)"
  by (simp add: sliceObject_target gameLoop_not_playing)

theorem target_hit_scoring_witness:
  "obj_isTarget (gameObject 100 100 True)
   \<and> comboRef (playingCtx\<lparr>comboRef := 3\<rparr>) = 3
   \<and> scoreRef (snd (sliceObject (gameObject 100 100 True) (playingCtx\<lparr>comboRef := 3\<rparr>))) = 16
   \<and> comboRef (snd (sliceObject (gameObject 100 100 True) (playingCtx\<lparr>comboRef := 3\<rparr>))) = 4
   \<and> gameState (initialCtx zeroStream) \<noteq> PLAYING
   \<and> gameLoop 0 None None (initialCtx zeroStream) = initialCtx zeroStream"
  using target_hit_scoring
    [of "gameObject 100 100 True" "playingCtx\<lparr>comboRef := 3\<rparr>"]
    target_hit_scoring
    [of "gameObject 100 100 True" "initialCtx zeroStream" 0 None None]
  by (simp add: gameObject_def playingCtx_def initialCtx_def)

text \<open>
  C3, as stated, fails: after a target hit has scheduled the combo timer, a distractor hit
  leaves that timer pending.
\<close>

theorem distractor_hit_timer_counterexample:
  "obj_isTarget (gameObject 100 100 True)
   \<and> \<not> obj_isTarget (gameObject 100 100 False)
   \<and> timers afterTargetHit = [(1, 1500)]
   \<and> comboTimerRef afterTargetHit = Some 1
   \<and> timers (snd (sliceObject (gameObject 100 100 False) afterTargetHit)) \<noteq> []"
proof -
  have t: "obj_isTarget (gameObject 100 100 True)"
    and d: "\<not> obj_isTarget (gameObject 100 100 False)"
    by (simp_all add: gameObject_def)
  have "timers afterTargetHit = [(1, 1500)]" "comboTimerRef afterTargetHit = Some 1"
    unfolding afterTargetHit_def sliceObject_target_timers [OF t]
    by (simp_all add: incrementCombo_timers playingCtx_def initialCtx_def)
  then show ?thesis
    using t d by (simp add: sliceObject_distractor)
qed

text \<open>
  C3, amended. A distractor hit takes exactly one life, resets the combo count to 0 at
  once and leaves the pending combo timer pending: the pending timeouts and the timer
  reference are what they were. If no life is left, the state becomes \<open>GAME_OVER\<close>. With
  one life left the hit leaves none and the state is \<open>GAME_OVER\<close>.
\<close>

theorem distractor_hit:
  "(\<not> obj_isTarget obj \<longrightarrow>
      livesRef (snd (sliceObject obj c)) = livesRef c - 1
      \<and> lives (snd (sliceObject obj c)) = livesRef (snd (sliceObject obj c))
      \<and> comboRef (snd (sliceObject obj c)) = 0
      \<and> combo (snd (sliceObject obj c)) = 0
      \<and> timers (snd (sliceObject obj c)) = timers c
      \<and> comboTimerRef (snd (sliceObject obj c)) = comboTimerRef c
      \<and> (livesRef (snd (sliceObject obj c)) = 0
           \<longrightarrow> gameState (snd (sliceObject obj c)) = GAME_OVER))
   \<and> (\<not> obj_isTarget obj \<and> livesRef c = 1 \<longrightarrow>
      livesRef (snd (sliceObject obj c)) = 0 \<and> gameState (snd (sliceObject obj c)) = GAME_OVER)"
  by (simp add: sliceObject_distractor)

theorem distractor_hit_witness:
  "\<not> obj_isTarget (gameObject 100 100 False)
   \<and> livesRef (playingCtx\<lparr>livesRef := 1\<rparr>) = 1
   \<and> livesRef (snd (sliceObject (gameObject 100 100 False) (playingCtx\<lparr>livesRef := 1\<rparr>))) = 0
   \<and> comboRef (snd (sliceObject (gameObject 100 100 False) (playingCtx\<lparr>livesRef := 1\<rparr>))) = 0
   \<and> gameState (snd (sliceObject (gameObject 100 100 False) (playingCtx\<lparr>livesRef := 1\<rparr>)))
       = GAME_OVER"
  using distractor_hit [of "gameObject 100 100 False" "playingCtx\<lparr>livesRef := 1\<rparr>"]
  by (simp add: gameObject_def playingCtx_def initialCtx_def)

text \<open>
  C8, as stated, fails: in one step the vertical velocity of a particle does not grow by
  more than that of an object.
\<close>

theorem particle_gravity_counterexample:
  "\<not> (pt_vy (updateParticle (particle 100 100)) - pt_vy (particle 100 100)
       > obj_vy (moveObject (gameObject 100 100 True)) - obj_vy (gameObject 100 100 True))"
  by (simp add: updateParticle_def moveObject_def particle_def gameObject_def GRAVITY_def Let_def)

text \<open>
  C8, amended. Each step adds 0.15 to the vertical velocity of a particle and \<open>GRAVITY\<close>,
  0.25, to that of an object: the constant of the particles is the smaller one.
\<close>

theorem particle_gravity_smaller:
  "pt_vy (updateParticle p) - pt_vy p = 0.15
   \<and> obj_vy (moveObject obj) - obj_vy obj = GRAVITY
   \<and> GRAVITY = 0.25
   \<and> pt_vy (updateParticle p) - pt_vy p < obj_vy (moveObject obj) - obj_vy obj"
  by (simp add: updateParticle_def moveObject_def GRAVITY_def Let_def)

lemma generateLevel_fails:
  "service = ServiceThrows \<or> service = ServiceResponse None \<or> service = ServiceResponse (Some [])
   \<Longrightarrow> isl (generateLevel parse service)"
  by (auto simp: generateLevel_def)

lemma initializeGame_failure:
  assumes "isl (generateLevel parse service)"
  shows "gameState (initializeGame parse granted service c) = ERROR"
    and "errorMsg (initializeGame parse granted service c) = Some ''AI Dojo disconnected.''"
    and "transitions (initializeGame parse granted service c)
         = transitions c @ LOADING_LEVEL
             # (if \<not> permissionGranted c \<and> \<not> granted then [ERROR] else []) @ [ERROR]"
proof -
  from assms obtain e where "generateLevel parse service = Inl e"
    by (cases "generateLevel parse service") simp_all
  then show "gameState (initializeGame parse granted service c) = ERROR"
    and "errorMsg (initializeGame parse granted service c) = Some ''AI Dojo disconnected.''"
    and "transitions (initializeGame parse granted service c)
         = transitions c @ LOADING_LEVEL
             # (if \<not> permissionGranted c \<and> \<not> granted then [ERROR] else []) @ [ERROR]"
    by (simp_all add: initializeGame_def Let_def setGameState_def startCamera_def)
qed

text \<open>
  C9. When the level fetch fails (the call throws, or the response has no text or an empty
  one, or any other failure of \<open>generateLevel\<close>), \<open>initializeGame\<close> ends in the state
  \<open>ERROR\<close> with the message for unavailable content, and \<open>PLAYING\<close> is not among the states
  it passes through.
\<close>

theorem level_fetch_failure:
  "(service = ServiceThrows \<or> service = ServiceResponse None
      \<or> service = ServiceResponse (Some []) \<longrightarrow> isl (generateLevel parse service))
   \<and> (isl (generateLevel parse service) \<longrightarrow>
        gameState (initializeGame parse granted service c) = ERROR
        \<and> errorMsg (initializeGame parse granted service c) = Some ''AI Dojo disconnected.''
        \<and> transitions (initializeGame parse granted service c)
            = transitions c @ LOADING_LEVEL
                # (if \<not> permissionGranted c \<and> \<not> granted then [ERROR] else []) @ [ERROR]
        \<and> PLAYING \<notin> set (drop (length (transitions c))
                           (transitions (initializeGame parse granted service c))))"
  using generateLevel_fails [of service parse]
  by (simp add: initializeGame_failure)

theorem level_fetch_failure_witness:
  "isl (generateLevel noParse ServiceThrows)
   \<and> gameState (initializeGame noParse True ServiceThrows (initialCtx zeroStream)) = ERROR
   \<and> errorMsg (initializeGame noParse True ServiceThrows (initialCtx zeroStream))
       = Some ''AI Dojo disconnected.''
   \<and> transitions (initializeGame noParse True ServiceThrows (initialCtx zeroStream))
       = [LOADING_LEVEL, ERROR]"
  using level_fetch_failure [of ServiceThrows noParse True "initialCtx zeroStream"]
  by (simp add: initialCtx_def)


section \<open>Motion estimation\<close>

lemma channel_real: "i < length d \<Longrightarrow> js_get d i = Fin (real_of_int (channel d i))"
  by (simp add: js_get_def channel_def)

lemma js_get_NaN: "\<not> i < length d \<Longrightarrow> js_get d i = NaN"
  by (simp add: js_get_def)

lemma channel_range: "0 \<le> channel d i \<and> channel d i < 256"
proof -
  have "uint (d ! i) < 2 ^ LENGTH(8)" by (rule uint_lt2p)
  then show ?thesis by (simp add: channel_def)
qed

text \<open>Differences and sums of bytes are small integers: they are computed exactly.\<close>

lemma js_diff_bytes:
  assumes "0 \<le> a \<and> a < 256" and "0 \<le> b \<and> b < 256"
  shows "js_abs (js_sub (Fin (real_of_int a)) (Fin (real_of_int b)))
         = Fin (real_of_int \<bar>a - b\<bar>)"
proof -
  from assms have "\<bar>a - b\<bar> < 256" by linarith
  then have "\<bar>a - b\<bar> < 2 ^ 53" by simp
  then have "binary64 (real_of_int (a - b)) = Fin (real_of_int (a - b))"
    by (rule binary64_int)
  then show ?thesis by simp
qed

lemma js_add_small:
  assumes "0 \<le> a \<and> a < 1024" and "0 \<le> b \<and> b < 1024"
  shows "js_add (Fin (real_of_int a)) (Fin (real_of_int b)) = Fin (real_of_int (a + b))"
proof -
  from assms have "\<bar>a + b\<bar> < 2 ^ 53" by simp
  then have "binary64 (real_of_int (a + b)) = Fin (real_of_int (a + b))"
    by (rule binary64_int)
  then show ?thesis by simp
qed

lemma threshold_iff:
  "js_lt (Fin (MOTION_THRESHOLD * 3))
     (js_add (js_add (js_abs (js_sub (js_get cur (4 * k)) (js_get prev (4 * k))))
                     (js_abs (js_sub (js_get cur (4 * k + 1)) (js_get prev (4 * k + 1)))))
             (js_abs (js_sub (js_get cur (4 * k + 2)) (js_get prev (4 * k + 2)))))
   \<longleftrightarrow> qualifies cur prev k"
proof (cases "4 * k + 2 < length cur \<and> 4 * k + 2 < length prev")
  case True
  then have inside: "4 * k < length cur" "4 * k + 1 < length cur" "4 * k + 2 < length cur"
    "4 * k < length prev" "4 * k + 1 < length prev" "4 * k + 2 < length prev"
    by simp_all
  define r where "r = \<bar>channel cur (4 * k) - channel prev (4 * k)\<bar>"
  define g where "g = \<bar>channel cur (4 * k + 1) - channel prev (4 * k + 1)\<bar>"
  define b where "b = \<bar>channel cur (4 * k + 2) - channel prev (4 * k + 2)\<bar>"
  have range: "0 \<le> r \<and> r < 256" "0 \<le> g \<and> g < 256" "0 \<le> b \<and> b < 256"
    using channel_range [of cur "4 * k"] channel_range [of prev "4 * k"]
      channel_range [of cur "4 * k + 1"] channel_range [of prev "4 * k + 1"]
      channel_range [of cur "4 * k + 2"] channel_range [of prev "4 * k + 2"]
    by (auto simp: r_def g_def b_def)
  have rDiff: "js_abs (js_sub (js_get cur (4 * k)) (js_get prev (4 * k))) = Fin (real_of_int r)"
    unfolding channel_real [OF inside(1)] channel_real [OF inside(4)] r_def
    by (rule js_diff_bytes [OF channel_range channel_range])
  have gDiff: "js_abs (js_sub (js_get cur (4 * k + 1)) (js_get prev (4 * k + 1)))
      = Fin (real_of_int g)"
    unfolding channel_real [OF inside(2)] channel_real [OF inside(5)] g_def
    by (rule js_diff_bytes [OF channel_range channel_range])
  have bDiff: "js_abs (js_sub (js_get cur (4 * k + 2)) (js_get prev (4 * k + 2)))
      = Fin (real_of_int b)"
    unfolding channel_real [OF inside(3)] channel_real [OF inside(6)] b_def
    by (rule js_diff_bytes [OF channel_range channel_range])
  have rg: "js_add (Fin (real_of_int r)) (Fin (real_of_int g)) = Fin (real_of_int (r + g))"
    using range by (intro js_add_small) auto
  have rgb: "js_add (Fin (real_of_int (r + g))) (Fin (real_of_int b))
      = Fin (real_of_int (r + g + b))"
    using range by (intro js_add_small) auto
  have "(105 < real_of_int (r + g + b)) \<longleftrightarrow> (105 < r + g + b)"
  proof -
    have "real_of_int 105 < real_of_int (r + g + b) \<longleftrightarrow> 105 < r + g + b"
      by (simp only: of_int_less_iff)
    then show ?thesis by simp
  qed
  moreover have "qualifies cur prev k \<longleftrightarrow> 105 < r + g + b"
    using True by (simp add: qualifies_def r_def g_def b_def)
  ultimately show ?thesis
    unfolding rDiff gDiff bDiff rg rgb by (simp add: MOTION_THRESHOLD_def)
next
  case False
  then have "js_get cur (4 * k + 2) = NaN \<or> js_get prev (4 * k + 2) = NaN"
    by (auto simp: js_get_def)
  then have "js_abs (js_sub (js_get cur (4 * k + 2)) (js_get prev (4 * k + 2))) = NaN"
    by auto
  with False show ?thesis
    by (auto simp: qualifies_def)
qed

lemma scan_count:
  "i = 4 * k \<Longrightarrow>
   snd (snd (scanPixels cur prev w i acc))
   = snd (snd acc) + length (filter (qualifies cur prev) [k..<(length cur + 3) div 4])"
proof (induction cur prev w i acc arbitrary: k rule: scanPixels.induct)
  case (1 frameData prevData w i sumX sumY count)
  note i = \<open>i = 4 * k\<close>
  show ?case
  proof (cases "i < length frameData")
    case False
    then have "(length frameData + 3) div 4 \<le> k"
      using i by simp
    with False show ?thesis by (subst scanPixels.simps) simp
  next
    case True
    then have k: "k < (length frameData + 3) div 4"
      using i by simp
    then have upt: "[k..<(length frameData + 3) div 4] = k # [Suc k..<(length frameData + 3) div 4]"
      by (simp add: upt_conv_Cons)
    have next_i: "i + 4 = 4 * Suc k" using i by simp
    have idx: "i + 1 = 4 * k + 1" "i + 2 = 4 * k + 2" using i by simp_all
    show ?thesis
    proof (cases "qualifies frameData prevData k")
      case q: True
      then have cond: "js_lt (Fin (MOTION_THRESHOLD * 3))
         (js_add (js_add (js_abs (js_sub (js_get frameData i) (js_get prevData i)))
                     (js_abs (js_sub (js_get frameData (i + 1)) (js_get prevData (i + 1)))))
             (js_abs (js_sub (js_get frameData (i + 2)) (js_get prevData (i + 2)))))"
        unfolding idx unfolding i threshold_iff .
      have "snd (snd (scanPixels frameData prevData w (i + 4)
                (sumX + i div 4 mod w, sumY + i div 4 div w, count + 1)))
            = snd (snd (sumX + i div 4 mod w, sumY + i div 4 div w, count + 1))
              + length (filter (qualifies frameData prevData) [Suc k..<(length frameData + 3) div 4])"
        using "1.IH"(1) [OF True refl refl refl cond refl next_i] .
      then show ?thesis
        using True cond q by (subst scanPixels.simps) (simp add: upt Let_def)
    next
      case q: False
      then have cond: "\<not> js_lt (Fin (MOTION_THRESHOLD * 3))
         (js_add (js_add (js_abs (js_sub (js_get frameData i) (js_get prevData i)))
                     (js_abs (js_sub (js_get frameData (i + 1)) (js_get prevData (i + 1)))))
             (js_abs (js_sub (js_get frameData (i + 2)) (js_get prevData (i + 2)))))"
        unfolding idx unfolding i threshold_iff .
      have "snd (snd (scanPixels frameData prevData w (i + 4) (sumX, sumY, count)))
            = snd (snd (sumX, sumY, count))
              + length (filter (qualifies frameData prevData) [Suc k..<(length frameData + 3) div 4])"
        using "1.IH"(2) [OF True refl refl refl cond next_i] .
      then show ?thesis
        using True cond q by (subst scanPixels.simps) (simp add: upt Let_def)
    qed
  qed
qed

lemma scanPixels_count:
  "snd (snd (scanPixels cur prev w 0 (0, 0, 0))) = qualifyingCount cur prev"
  using scan_count [of 0 0 cur prev w "(0, 0, 0)"] by (simp add: qualifyingCount_def)

lemma detectMotion_gate:
  "fst (detectMotion (Some (w, cur)) (Some prev)) = None
   \<longleftrightarrow> \<not> MIN_MOVEMENT_PIXELS < qualifyingCount cur prev"
proof -
  obtain sumX sumY n where scan: "scanPixels cur prev w 0 (0, 0, 0) = (sumX, sumY, n)"
    by (cases "scanPixels cur prev w 0 (0, 0, 0)") auto
  with scanPixels_count [of cur prev w] have "n = qualifyingCount cur prev" by simp
  with scan show ?thesis by (simp add: Let_def)
qed

lemma qualifies_same: "\<not> qualifies f f k"
  by (simp add: qualifies_def)

lemma qualifyingCount_same: "qualifyingCount f f = 0"
  by (simp add: qualifyingCount_def qualifies_same)

text \<open>
  C4. The count that the scan of \<open>detectMotion\<close> reaches is the number of qualifying
  pixels: those whose summed absolute red, green and blue differences exceed three times
  the noise threshold. Whenever that number is below the minimum cluster size no motion is
  returned, however large the differences are; two identical frames have no qualifying
  pixel and give no motion.
\<close>

theorem no_motion_below_cluster_size:
  "snd (snd (scanPixels cur prev w 0 (0, 0, 0))) = qualifyingCount cur prev
   \<and> (qualifyingCount cur prev < MIN_MOVEMENT_PIXELS
        \<longrightarrow> fst (detectMotion (Some (w, cur)) (Some prev)) = None)
   \<and> qualifyingCount f f = 0
   \<and> fst (detectMotion (Some (w, f)) (Some f)) = None"
  by (simp add: scanPixels_count detectMotion_gate qualifyingCount_same
      del: detectMotion.simps)

theorem no_motion_below_cluster_size_witness:
  "qualifies whiteFrame blackFrame 0
   \<and> qualifyingCount whiteFrame blackFrame = 1
   \<and> qualifyingCount whiteFrame blackFrame < MIN_MOVEMENT_PIXELS
   \<and> fst (detectMotion (Some (1, whiteFrame)) (Some blackFrame)) = None"
  using no_motion_below_cluster_size [of whiteFrame blackFrame 1]
  by (simp add: qualifyingCount_def qualifies_def channel_def whiteFrame_def blackFrame_def
      MIN_MOVEMENT_PIXELS_def del: detectMotion.simps)


section \<open>Trail\<close>

lemma trailInv_Nil: "trailInv []"
  by (simp add: trailInv_def)

lemma gap_chain:
  assumes "sorted_wrt (\<lambda>p q. tp_life q + 0.12 \<le> tp_life p) ts"
    and "list_all (\<lambda>p. 0 < tp_life p) ts" and "ts \<noteq> []"
  shows "0.12 * real (length ts) < tp_life (hd ts) + 0.12"
  using assms
proof (induction ts)
  case Nil
  then show ?case by simp
next
  case (Cons p ps)
  note prems = Cons.prems and IH = Cons.IH
  show ?case
  proof (cases ps)
    case Nil
    with prems(2) show ?thesis by simp
  next
    case ps: (Cons q qs)
    have "sorted_wrt (\<lambda>p q. tp_life q + 0.12 \<le> tp_life p) ps"
      using prems(1) by simp
    moreover have "list_all (\<lambda>p. 0 < tp_life p) ps"
      using prems(2) by simp
    moreover have "ps \<noteq> []" using ps by simp
    ultimately have "0.12 * real (length ps) < tp_life (hd ps) + 0.12"
      by (rule IH)
    moreover have "tp_life (hd ps) + 0.12 \<le> tp_life p"
      using prems(1) ps by simp
    ultimately have "0.12 * real (length ps) < tp_life p"
      by linarith
    then show ?thesis by (simp add: algebra_simps)
  qed
qed

lemma trailInv_length:
  assumes "trailInv ts"
  shows "length ts \<le> 8"
proof (cases ts)
  case Nil
  then show ?thesis by simp
next
  case (Cons p ps)
  from assms have sorted: "sorted_wrt (\<lambda>p q. tp_life q + 0.12 \<le> tp_life p) ts"
    and range: "list_all (\<lambda>p. 0 < tp_life p \<and> tp_life p \<le> 0.88) ts"
    by (simp_all add: trailInv_def)
  from range have pos: "list_all (\<lambda>p. 0 < tp_life p) ts"
    by (simp add: list_all_iff)
  from range Cons have top: "tp_life (hd ts) \<le> 0.88"
    by simp
  from Cons have "ts \<noteq> []" by simp
  from gap_chain [OF sorted pos this] top
  have bound: "0.12 * real (length ts) < 1" by simp
  show ?thesis
  proof (rule ccontr)
    assume "\<not> length ts \<le> 8"
    then have "9 \<le> length ts" by simp
    then have "9 \<le> real (length ts)" by simp
    with bound show False by simp
  qed
qed

lemma trailRef_updateTrail:
  "trailRef (updateTrail motion c) =
     (case motion of
        None \<Rightarrow> trailRef c
      | Some (mx, my) \<Rightarrow>
          \<lparr>tp_x = fst (swordPosRef c) + (mx - fst (swordPosRef c)) * 0.5,
           tp_y = snd (swordPosRef c) + (my - snd (swordPosRef c)) * 0.5,
           tp_life = 1\<rparr> # trailRef c)"
  by (simp add: updateTrail_def Let_def playSound_def split: option.split prod.split)

lemma trailRef_decayTrail:
  "trailRef (decayTrail c)
   = filter (\<lambda>p. 0 < tp_life p) (map (\<lambda>p. p\<lparr>tp_life := tp_life p - 0.12\<rparr>) (trailRef c))"
  by (simp add: decayTrail_def Let_def)

lemma decayTrail_positive: "p \<in> set (trailRef (decayTrail c)) \<Longrightarrow> 0 < tp_life p"
  by (simp add: trailRef_decayTrail)

lemma updateTrail_length: "length (trailRef (updateTrail motion c)) \<le> length (trailRef c) + 1"
  by (simp add: trailRef_updateTrail split: option.split prod.split)

lemma decay_step_inv:
  assumes "sorted_wrt (\<lambda>p q. tp_life q + 0.12 \<le> tp_life p) ts"
    and "list_all (\<lambda>p. tp_life p \<le> 1) ts"
  shows "trailInv (filter (\<lambda>p. 0 < tp_life p) (map (\<lambda>p. p\<lparr>tp_life := tp_life p - 0.12\<rparr>) ts))"
proof -
  have eq: "(\<lambda>p q. tp_life (q\<lparr>tp_life := tp_life q - 0.12\<rparr>) + 0.12
                 \<le> tp_life (p\<lparr>tp_life := tp_life p - 0.12\<rparr>))
        = (\<lambda>p q. tp_life q + 0.12 \<le> tp_life p)"
    by (intro ext) auto
  have "sorted_wrt (\<lambda>p q. tp_life q + 0.12 \<le> tp_life p)
          (map (\<lambda>p. p\<lparr>tp_life := tp_life p - 0.12\<rparr>) ts)"
    unfolding sorted_wrt_map eq by (rule assms(1))
  then have "sorted_wrt (\<lambda>p q. tp_life q + 0.12 \<le> tp_life p)
          (filter (\<lambda>p. 0 < tp_life p) (map (\<lambda>p. p\<lparr>tp_life := tp_life p - 0.12\<rparr>) ts))"
    by (rule sorted_wrt_filter)
  moreover have "list_all (\<lambda>p. 0 < tp_life p \<and> tp_life p \<le> 0.88)
          (filter (\<lambda>p. 0 < tp_life p) (map (\<lambda>p. p\<lparr>tp_life := tp_life p - 0.12\<rparr>) ts))"
    using assms(2) by (auto simp: list_all_iff)
  ultimately show ?thesis by (simp add: trailInv_def)
qed

lemma trail_step_inv:
  assumes "trailInv (trailRef c)"
  shows "trailInv (trailRef (decayTrail (updateTrail motion c)))"
proof -
  from assms have sorted: "sorted_wrt (\<lambda>p q. tp_life q + 0.12 \<le> tp_life p) (trailRef c)"
    and range: "\<forall>p \<in> set (trailRef c). 0 < tp_life p \<and> tp_life p \<le> 0.88"
    by (simp_all add: trailInv_def list_all_iff)
  have "sorted_wrt (\<lambda>p q. tp_life q + 0.12 \<le> tp_life p) (trailRef (updateTrail motion c))"
    using sorted range by (auto simp: trailRef_updateTrail split: option.split)
  moreover have "list_all (\<lambda>p. tp_life p \<le> 1) (trailRef (updateTrail motion c))"
    using range by (auto simp: trailRef_updateTrail list_all_iff split: option.split)
  ultimately show ?thesis
    unfolding trailRef_decayTrail by (rule decay_step_inv)
qed

lemma sliceObject_trailRef: "trailRef (snd (sliceObject obj c)) = trailRef c"
proof -
  obtain ps r where cs: "createSplatter (obj_x obj) (obj_y obj) (obj_color obj) c
      = c\<lparr>particlesRef := ps, rng := r\<rparr>"
    using createSplatter_frame by blast
  show ?thesis
    by (simp add: sliceObject_def Let_def cs playSound_def setGameState_def incrementCombo_def
        clearTimeout_def setTimeout_def split: option.split)
qed

lemma segmentLoop_trailRef: "trailRef (snd (segmentLoop i obj c)) = trailRef c"
proof (induction i obj c rule: segmentLoop.induct)
  case (1 i obj c)
  then show ?case
    by (subst segmentLoop.simps) (simp add: sliceObject_trailRef)
qed

lemma updateObject_trailRef: "trailRef (snd (updateObject obj c)) = trailRef c"
  by (simp add: updateObject_def Let_def segmentLoop_trailRef)

lemma forEachObject_trailRef: "trailRef (snd (forEachObject objs c)) = trailRef c"
proof (induction objs arbitrary: c)
  case Nil
  then show ?case by simp
next
  case (Cons obj rest)
  obtain obj' c' where u: "updateObject obj c = (obj', c')"
    by (cases "updateObject obj c") auto
  obtain rest' c'' where f: "forEachObject rest c' = (rest', c'')"
    by (cases "forEachObject rest c'") auto
  from u have "trailRef c' = trailRef c"
    using updateObject_trailRef [of obj c] by simp
  moreover from f have "trailRef c'' = trailRef c'"
    using Cons.IH [of c'] by simp
  ultimately show ?case by (simp add: u f)
qed

lemma spawnObject_trailRef: "trailRef (spawnObject width height c) = trailRef c"
  by (simp add: spawnObject_def random_def Let_def split: option.split)

lemma updateParticles_trailRef: "trailRef (updateParticles c) = trailRef c"
  by (simp add: updateParticles_def Let_def)

lemma gameLoop_trailRef:
  assumes "gameState c = PLAYING"
  shows "trailRef (gameLoop time (Some canvas) video c)
         = trailRef (decayTrail (updateTrail (fst (detectMotion video (prevFrameDataRef c))) c))"
proof -
  obtain width height where canvas: "canvas = (width, height)"
    by (cases canvas) auto
  obtain motion prev where dm: "detectMotion video (prevFrameDataRef c) = (motion, prev)"
    by (cases "detectMotion video (prevFrameDataRef c)") auto
  define c1 where "c1 = updateParticles (decayTrail (updateTrail motion (c\<lparr>prevFrameDataRef := prev\<rparr>)))"
  obtain objs c2 where fe: "forEachObject (objectsRef c1) c1 = (objs, c2)"
    by (cases "forEachObject (objectsRef c1) c1") auto
  have "trailRef c2 = trailRef c1"
    using forEachObject_trailRef [of "objectsRef c1" c1] fe by simp
  also have "\<dots> = trailRef (decayTrail (updateTrail motion c))"
    by (simp add: c1_def updateParticles_trailRef trailRef_decayTrail trailRef_updateTrail
        split: option.split)
  finally have c2: "trailRef c2 = trailRef (decayTrail (updateTrail motion c))" .
  have "trailRef (gameLoop time (Some canvas) video c) = trailRef c2"
    using assms fe [unfolded c1_def]
    by (simp add: gameLoop_def canvas dm Let_def spawnObject_trailRef del: detectMotion.simps)
  with c2 show ?thesis by (simp add: dm)
qed

lemma gameLoop_trailInv:
  assumes "trailInv (trailRef c)"
  shows "trailInv (trailRef (gameLoop time canvas video c))"
proof (cases "gameState c = PLAYING \<and> canvas \<noteq> None")
  case True
  then obtain cv where "canvas = Some cv" by auto
  with True assms show ?thesis
    by (simp add: gameLoop_trailRef trail_step_inv del: detectMotion.simps)
next
  case False
  then have "gameLoop time canvas video c = c"
    by (auto simp: gameLoop_def split: option.split)
  with assms show ?thesis by simp
qed

lemma runLoop_trailInv:
  "trailInv (trailRef c) \<Longrightarrow> trailInv (trailRef (runLoop inputs c))"
proof (induction inputs arbitrary: c)
  case Nil
  then show ?case by simp
next
  case (Cons input rest)
  obtain time canvas video where input: "input = (time, canvas, video)"
    by (cases input) auto
  from Cons.prems have "trailInv (trailRef (gameLoop time canvas video c))"
    by (rule gameLoop_trailInv)
  then show ?case
    unfolding input by (simp add: Cons.IH)
qed

lemma continuousMotion_trailInv:
  "trailInv (trailRef c) \<Longrightarrow> trailInv (trailRef (continuousMotion ms c))"
  by (induction ms arbitrary: c) (simp_all add: trail_step_inv)

lemma pushed_length:
  assumes "trailInv (trailRef c)"
  shows "length (trailRef (updateTrail motion c)) \<le> 9"
  using trailInv_length [OF assms] updateTrail_length [of motion c] by linarith

text \<open>
  C5. After the decay and the filter, in isolation and at the end of a call of the game
  loop, every point of the trail has a life above 0. Starting from an empty trail, the
  trail never holds more than 9 points, the value of 1 / 0.12 rounded up: neither under
  continuous motion nor in any other run of the game loop, neither between two calls nor
  just after a new point was pushed.
\<close>

theorem trail_points_alive_and_bounded:
  "(\<forall>p \<in> set (trailRef (decayTrail c)). 0 < tp_life p)
   \<and> (gameState c = PLAYING \<longrightarrow>
        (\<forall>p \<in> set (trailRef (gameLoop time (Some canvas) video c)). 0 < tp_life p))
   \<and> (trailRef c = [] \<longrightarrow>
        length (trailRef (continuousMotion ms c)) \<le> 9
        \<and> length (trailRef (updateTrail (Some m) (continuousMotion ms c))) \<le> 9
        \<and> length (trailRef (runLoop inputs c)) \<le> 9
        \<and> length (trailRef (updateTrail motion (runLoop inputs c))) \<le> 9)"
proof -
  have alive: "\<forall>p \<in> set (trailRef (decayTrail c)). 0 < tp_life p" for c
    by (simp add: decayTrail_positive)
  have loop: "\<forall>p \<in> set (trailRef (gameLoop time (Some canvas) video c)). 0 < tp_life p"
    if "gameState c = PLAYING"
    unfolding gameLoop_trailRef [OF that] by (rule alive)
  have bound: "length (trailRef (continuousMotion ms c)) \<le> 9
        \<and> length (trailRef (updateTrail (Some m) (continuousMotion ms c))) \<le> 9
        \<and> length (trailRef (runLoop inputs c)) \<le> 9
        \<and> length (trailRef (updateTrail motion (runLoop inputs c))) \<le> 9"
    if "trailRef c = []"
  proof -
    from that have inv: "trailInv (trailRef c)" by (simp add: trailInv_Nil)
    have "length (trailRef (continuousMotion ms c)) \<le> 8"
      by (rule trailInv_length [OF continuousMotion_trailInv [OF inv]])
    moreover have "length (trailRef (runLoop inputs c)) \<le> 8"
      by (rule trailInv_length [OF runLoop_trailInv [OF inv]])
    moreover note pushed_length [OF continuousMotion_trailInv [OF inv], of "Some m" ms]
      pushed_length [OF runLoop_trailInv [OF inv], of motion inputs]
    ultimately show ?thesis by simp
  qed
  from alive loop bound show ?thesis by blast
qed



lemma playingCtx_fields:
  "gameState playingCtx = PLAYING" "trailRef playingCtx = []"
  "swordPosRef playingCtx = (320, 240)" "objectsRef playingCtx = []"
  "sounds playingCtx = []" "prevFrameDataRef playingCtx = None"
  by (simp_all add: playingCtx_def initialCtx_def)

lemma slashingCtx_fields:
  "gameState slashingCtx = PLAYING" "trailRef slashingCtx = blade"
  "sounds slashingCtx = []"
  by (simp_all add: slashingCtx_def playingCtx_fields)


theorem trail_points_alive_and_bounded_witness:
  "gameState slashingCtx = PLAYING
   \<and> map tp_life (trailRef (gameLoop 0 (Some (640, 480)) None slashingCtx)) = [0.88, 0.88, 0.88]
   \<and> 0 < tp_life (hd (trailRef (gameLoop 0 (Some (640, 480)) None slashingCtx)))
   \<and> map tp_life (trailRef (decayTrail slashingCtx)) = [0.88, 0.88, 0.88]
   \<and> 0 < tp_life (hd (trailRef (decayTrail slashingCtx)))
   \<and> trailRef playingCtx = []
   \<and> trailRef (continuousMotion [(100, 100)] playingCtx)
       = [\<lparr>tp_x = 210, tp_y = 170, tp_life = 0.88\<rparr>]
   \<and> length (trailRef (continuousMotion [(100, 100)] playingCtx)) \<le> 9
   \<and> length (trailRef (runLoop [(0, Some (640, 480), None)] playingCtx)) \<le> 9"
proof -
  note slashing = trail_points_alive_and_bounded
    [of slashingCtx 0 "(640, 480)" None "[]" "(0, 0)" "[]" None]
  note playing = trail_points_alive_and_bounded
    [of playingCtx 0 "(640, 480)" None "[(100, 100)]" "(0, 0)"
      "[(0, Some (640, 480), None)]" None]
  have state: "gameState slashingCtx = PLAYING"
    by (simp add: slashingCtx_fields)
  have loop: "map tp_life (trailRef (gameLoop 0 (Some (640, 480)) None slashingCtx))
      = [0.88, 0.88, 0.88]"
    by (simp add: gameLoop_trailRef trailRef_decayTrail trailRef_updateTrail
        slashingCtx_fields blade_def trailPoint_def)
  have decay: "map tp_life (trailRef (decayTrail slashingCtx)) = [0.88, 0.88, 0.88]"
    by (simp add: trailRef_decayTrail slashingCtx_fields blade_def trailPoint_def)
  from loop have "hd (trailRef (gameLoop 0 (Some (640, 480)) None slashingCtx))
      \<in> set (trailRef (gameLoop 0 (Some (640, 480)) None slashingCtx))"
    by (intro hd_in_set) auto
  with slashing state
  have loop_alive: "0 < tp_life (hd (trailRef (gameLoop 0 (Some (640, 480)) None slashingCtx)))"
    by blast
  from decay have "hd (trailRef (decayTrail slashingCtx)) \<in> set (trailRef (decayTrail slashingCtx))"
    by (intro hd_in_set) auto
  with slashing
  have decay_alive: "0 < tp_life (hd (trailRef (decayTrail slashingCtx)))"
    by blast
  have empty: "trailRef playingCtx = []"
    by (simp add: playingCtx_fields)
  have pushed: "trailRef (continuousMotion [(100, 100)] playingCtx)
       = [\<lparr>tp_x = 210, tp_y = 170, tp_life = 0.88\<rparr>]"
    by (simp add: trailRef_decayTrail trailRef_updateTrail playingCtx_fields)
  from playing empty
  have "length (trailRef (continuousMotion [(100, 100)] playingCtx)) \<le> 9"
    and "length (trailRef (runLoop [(0, Some (640, 480), None)] playingCtx)) \<le> 9"
    by blast+
  with state loop loop_alive decay decay_alive empty pushed show ?thesis
    by (intro conjI)
qed


section \<open>Collision pass\<close>

lemma sliceObject_sliceEvents: "sliceEvents (snd (sliceObject obj c)) = sliceEvents c + 1"
proof -
  obtain ps r where cs: "createSplatter (obj_x obj) (obj_y obj) (obj_color obj) c
      = c\<lparr>particlesRef := ps, rng := r\<rparr>"
    using createSplatter_frame by blast
  show ?thesis
    by (simp add: sliceEvents_def sliceObject_def Let_def cs playSound_def setGameState_def
        incrementCombo_def clearTimeout_def setTimeout_def split: option.split)
qed

lemma sliceObject_sliced: "obj_sliced (fst (sliceObject obj c))"
  by (simp add: sliceObject_def Let_def)

lemma moveObject_sliced: "obj_sliced (moveObject obj) = obj_sliced obj"
  by (simp add: moveObject_def Let_def)

lemma segmentLoop_result:
  "segmentLoop i obj c =
     (if \<exists>j\<ge>i. j < min 5 (length (trailRef c) - 1)
              \<and> checkCollision (trailRef c ! j) (trailRef c ! (j + 1)) obj
      then sliceObject obj c else (obj, c))"
proof (induction i obj c rule: segmentLoop.induct)
  case (1 i obj c)
  let ?n = "min 5 (length (trailRef c) - 1)"
  let ?hit = "\<lambda>j. checkCollision (trailRef c ! j) (trailRef c ! (j + 1)) obj"
  show ?case
  proof (cases "i < ?n")
    case False
    then have none: "\<not> (\<exists>j\<ge>i. j < ?n \<and> ?hit j)" by auto
    have "segmentLoop i obj c = (obj, c)"
      by (subst segmentLoop.simps) (simp only: False if_False)
    then show ?thesis by (simp only: none if_False)
  next
    case True
    show ?thesis
    proof (cases "?hit i")
      case hit: True
      with True have some: "\<exists>j\<ge>i. j < ?n \<and> ?hit j" by blast
      have "segmentLoop i obj c = sliceObject obj c"
        by (subst segmentLoop.simps) (simp only: True hit if_True)
      then show ?thesis by (simp only: some if_True)
    next
      case miss: False
      have shift: "(\<exists>j\<ge>i. j < ?n \<and> ?hit j) \<longleftrightarrow> (\<exists>j\<ge>i + 1. j < ?n \<and> ?hit j)"
      proof
        assume "\<exists>j\<ge>i. j < ?n \<and> ?hit j"
        then obtain j where j: "i \<le> j" "j < ?n" "?hit j" by blast
        with miss have "j \<noteq> i" by auto
        with j show "\<exists>j\<ge>i + 1. j < ?n \<and> ?hit j" by (intro exI [of _ j]) simp
      next
        assume "\<exists>j\<ge>i + 1. j < ?n \<and> ?hit j"
        then obtain j where "i + 1 \<le> j" "j < ?n" "?hit j" by blast
        then show "\<exists>j\<ge>i. j < ?n \<and> ?hit j" by (intro exI [of _ j]) simp
      qed
      have "segmentLoop i obj c = segmentLoop (i + 1) obj c"
        by (subst segmentLoop.simps) (simp only: True miss if_True if_False)
      also note "1.IH" [OF True miss]
      finally show ?thesis by (simp only: shift)
    qed
  qed
qed

lemma updateObject_result:
  "updateObject obj c =
     (if \<not> obj_sliced obj \<and> 2 < length (trailRef c)
         \<and> (\<exists>j. j < min 5 (length (trailRef c) - 1)
                \<and> checkCollision (trailRef c ! j) (trailRef c ! (j + 1)) (moveObject obj))
      then sliceObject (moveObject obj) c else (moveObject obj, c))"
proof -
  have from_zero: "\<And>P. (\<exists>j\<ge>0::nat. P j) \<longleftrightarrow> (\<exists>j. P j)"
    by simp
  have nest: "\<And>a b (x::GameObject \<times> Ctx) y.
      (if a then (if b then x else y) else y) = (if a \<and> b then x else y)"
    by simp
  show ?thesis
    unfolding updateObject_def Let_def segmentLoop_result from_zero moveObject_sliced nest
      conj_assoc
    by (rule refl)
qed

lemma updateObject_sliceEvents: "sliceEvents (snd (updateObject obj c)) \<le> sliceEvents c + 1"
  unfolding updateObject_result by (simp only: sliceObject_sliceEvents split: if_split) simp

lemma spawnObject_unsliced:
  assumes "\<forall>ob \<in> set (objectsRef c). \<not> obj_sliced ob"
  shows "\<forall>ob \<in> set (objectsRef (spawnObject width height c)). \<not> obj_sliced ob"
  using assms by (auto simp: spawnObject_def random_def Let_def split: option.split)

lemma gameLoop_unsliced:
  assumes "gameState c = PLAYING"
  shows "\<forall>ob \<in> set (objectsRef (gameLoop time (Some canvas) video c)). \<not> obj_sliced ob"
proof -
  obtain width height where canvas: "canvas = (width, height)"
    by (cases canvas) auto
  obtain motion prev where dm: "detectMotion video (prevFrameDataRef c) = (motion, prev)"
    by (cases "detectMotion video (prevFrameDataRef c)") auto
  define c1 where "c1 = updateParticles (decayTrail (updateTrail motion (c\<lparr>prevFrameDataRef := prev\<rparr>)))"
  obtain objs c2 where fe: "forEachObject (objectsRef c1) c1 = (objs, c2)"
    by (cases "forEachObject (objectsRef c1) c1") auto
  define c3 where "c3 = c2\<lparr>objectsRef :=
      filter (\<lambda>obj. obj_y obj < height + 100 \<and> \<not> obj_sliced obj) objs\<rparr>"
  have c3: "\<forall>ob \<in> set (objectsRef c3). \<not> obj_sliced ob"
    by (simp add: c3_def)
  have "gameLoop time (Some canvas) video c
        = (if time - lastSpawnTimeRef c3 > SPAWN_RATE
           then (spawnObject width height c3)\<lparr>lastSpawnTimeRef := time\<rparr> else c3)"
    using assms fe [unfolded c1_def]
    by (simp add: gameLoop_def canvas dm Let_def c3_def del: detectMotion.simps)
  with c3 spawnObject_unsliced [OF c3, of width height] show ?thesis
    by simp
qed

text \<open>
  C6. No object is sliced twice. An object whose flag is set keeps it and is skipped: the
  context is left as it was. For an object whose flag is not set, the pass over the
  segments amounts to at most one execution of the slice branch, taken exactly when one
  of the first \<open>min 5 (length - 1)\<close> segments hits, however many of them do; that
  execution sets the flag and counts as one slice event. At the end of a call of the game
  loop no object with the flag set is left among the active objects.
\<close>

theorem no_double_slice:
  "(obj_sliced obj \<longrightarrow> obj_sliced (fst (updateObject obj c)) \<and> snd (updateObject obj c) = c)
   \<and> updateObject obj c =
       (if \<not> obj_sliced obj \<and> 2 < length (trailRef c)
           \<and> (\<exists>j. j < min 5 (length (trailRef c) - 1)
                  \<and> checkCollision (trailRef c ! j) (trailRef c ! (j + 1)) (moveObject obj))
        then sliceObject (moveObject obj) c else (moveObject obj, c))
   \<and> obj_sliced (fst (sliceObject (moveObject obj) c))
   \<and> sliceEvents (snd (sliceObject (moveObject obj) c)) = sliceEvents c + 1
   \<and> sliceEvents (snd (updateObject obj c)) \<le> sliceEvents c + 1
   \<and> (gameState c = PLAYING \<longrightarrow>
        (\<forall>ob \<in> set (objectsRef (gameLoop time (Some canvas) video c)). \<not> obj_sliced ob))"
proof -
  have skip: "obj_sliced (fst (updateObject obj c)) \<and> snd (updateObject obj c) = c"
    if "obj_sliced obj"
    unfolding updateObject_result using that by (simp add: moveObject_sliced)
  from skip updateObject_result [of obj c] gameLoop_unsliced [of c time canvas video]
    sliceObject_sliced [of "moveObject obj" c] sliceObject_sliceEvents [of "moveObject obj" c]
    updateObject_sliceEvents [of obj c]
  show ?thesis by blast
qed


theorem no_double_slice_witness:
  "\<not> obj_sliced (gameObject 200 100 True)
   \<and> 2 < length (trailRef slashingCtx)
   \<and> checkCollision (trailRef slashingCtx ! 0) (trailRef slashingCtx ! 1)
        (moveObject (gameObject 200 100 True))
   \<and> checkCollision (trailRef slashingCtx ! 1) (trailRef slashingCtx ! 2)
        (moveObject (gameObject 200 100 True))
   \<and> updateObject (gameObject 200 100 True) slashingCtx
       = sliceObject (moveObject (gameObject 200 100 True)) slashingCtx
   \<and> sliceEvents slashingCtx = 0
   \<and> sliceEvents (snd (updateObject (gameObject 200 100 True) slashingCtx)) = 1
   \<and> obj_sliced (fst (updateObject (gameObject 200 100 True) slashingCtx))
   \<and> snd (updateObject (fst (updateObject (gameObject 200 100 True) slashingCtx)) slashingCtx)
       = slashingCtx
   \<and> gameState waitingCtx = PLAYING
   \<and> objectsRef (gameLoop 0 (Some (640, 480)) None waitingCtx)
       = [moveObject (gameObject 100 100 True)]
   \<and> \<not> obj_sliced (hd (objectsRef (gameLoop 0 (Some (640, 480)) None waitingCtx)))"
proof -
  let ?obj = "gameObject 200 100 True"
  note first = no_double_slice [of ?obj slashingCtx 0 "(640, 480)" None]
  note again = no_double_slice
    [of "fst (updateObject ?obj slashingCtx)" slashingCtx 0 "(640, 480)" None]
  note waiting = no_double_slice [of "gameObject 100 100 True" waitingCtx 0 "(640, 480)" None]
  have fresh: "\<not> obj_sliced ?obj"
    by (simp add: gameObject_def)
  have len: "2 < length (trailRef slashingCtx)"
    by (simp add: slashingCtx_fields blade_def)
  have hit0: "checkCollision (trailRef slashingCtx ! 0) (trailRef slashingCtx ! 1) (moveObject ?obj)"
    and hit1: "checkCollision (trailRef slashingCtx ! 1) (trailRef slashingCtx ! 2) (moveObject ?obj)"
    by (simp_all add: slashingCtx_fields blade_def trailPoint_def gameObject_def moveObject_def
        checkCollision_def projection_def Let_def)
  have "0 < min 5 (length (trailRef slashingCtx) - 1)"
    by (simp add: slashingCtx_fields blade_def)
  with hit0 have some: "\<exists>j. j < min 5 (length (trailRef slashingCtx) - 1)
      \<and> checkCollision (trailRef slashingCtx ! j) (trailRef slashingCtx ! (j + 1)) (moveObject ?obj)"
    by (intro exI [of _ 0]) simp
  from first fresh len some
  have upd: "updateObject ?obj slashingCtx = sliceObject (moveObject ?obj) slashingCtx"
    by presburger
  have none: "sliceEvents slashingCtx = 0"
    by (simp add: sliceEvents_def slashingCtx_fields)
  from first none have one: "sliceEvents (snd (updateObject ?obj slashingCtx)) = 1"
    unfolding upd by simp
  from first have sliced: "obj_sliced (fst (updateObject ?obj slashingCtx))"
    unfolding upd by blast
  with again have skipped:
    "snd (updateObject (fst (updateObject ?obj slashingCtx)) slashingCtx) = slashingCtx"
    by blast
  have state: "gameState waitingCtx = PLAYING"
    by (simp add: waitingCtx_def playingCtx_fields)
  have objs: "objectsRef (gameLoop 0 (Some (640, 480)) None waitingCtx)
      = [moveObject (gameObject 100 100 True)]"
    by (simp add: gameLoop_def waitingCtx_def playingCtx_def initialCtx_def updateTrail_def
        decayTrail_def updateParticles_def updateObject_def moveObject_def gameObject_def
        SPAWN_RATE_def Let_def)
  then have "hd (objectsRef (gameLoop 0 (Some (640, 480)) None waitingCtx))
      \<in> set (objectsRef (gameLoop 0 (Some (640, 480)) None waitingCtx))"
    by simp
  with waiting state
  have unsliced: "\<not> obj_sliced (hd (objectsRef (gameLoop 0 (Some (640, 480)) None waitingCtx)))"
    by blast
  from fresh len hit0 hit1 upd none one sliced skipped state objs unsliced show ?thesis
    by (intro conjI)
qed


end
